theory Spec2Isabelle
  imports Main "HOL-Library.Word"
begin

section \<open>Client-side file validation (src/lib/file-validation.ts)\<close>

text \<open>
  A JavaScript string is a sequence of UTF-16 code units. The model covers the strings
  whose code units are below 256 (the Latin-1 range), one \<^typ>\<open>char\<close> per code unit;
  \<open>toLowerCase\<close>, the regular-expression class \<open>\s\<close> and the \<open>i\<close> flag are written
  out for that range. A string of an engine has fewer than \<open>2 ^ 32\<close> code units; where
  a statement depends on it, the bound is a hypothesis.
\<close>

subsection \<open>Data model\<close>

text \<open>
  What a thrown JavaScript value looks like to the \<open>catch\<close> clause of \<open>validateFile\<close>:
  an \<open>Error\<close> with its message, or any other value.
\<close>

datatype js_thrown = ErrorObject string | NonError

text \<open>
  What \<open>validatePdfHeader\<close> can observe of the bytes of a file: the \<open>FileReader\<close>
  fires \<open>load\<close> with the bytes, or fires \<open>error\<close>, or the body of the promise
  executor throws (the promise is then rejected and \<open>await\<close> rethrows).
\<close>

datatype file_content =
    Readable "8 word list"
  | Unreadable
  | ReadThrows js_thrown

text \<open>
  The fields of a browser \<open>File\<close> that the validator reads. \<open>file_size\<close> is kept as a
  field of its own: \<open>file.size\<close> is available without reading the content.
\<close>

record File =
  file_name :: string
  file_type :: string
  file_size :: nat
  file_content :: file_content

text \<open>
  The \<open>error\<close> string of a result, kept structured: one constructor per message
  template of the source, carrying the interpolated values.
\<close>

datatype validation_error =
    SizeExceedsLimit int
  | UnsupportedFileType string "string list"
  | UnsupportedFileExtension string "string list"
  | NotAllowedForSecurityReasons
  | InvalidPdfFileFormat
  | FileValidationFailed string

record FileValidationResult =
  isValid :: bool
  error :: "validation_error option"
  sanitizedFile :: "File option"

text \<open>\<open>Required<FileValidationOptions>\<close>: the options a validator holds.\<close>

record FileValidationOptions =
  maxSizeBytes :: int
  allowedTypes :: "string list"
  allowedExtensions :: "string list"
  scanForMalware :: bool

text \<open>\<open>FileValidationOptions\<close> as the constructor receives it: every field optional.\<close>

record PartialOptions =
  maxSizeBytes_opt :: "int option"
  allowedTypes_opt :: "string list option"
  allowedExtensions_opt :: "string list option"
  scanForMalware_opt :: "bool option"

definition DEFAULT_OPTIONS :: FileValidationOptions where
  "DEFAULT_OPTIONS =
     \<lparr> maxSizeBytes = 10 * 1024 * 1024,
       allowedTypes = [''application/pdf'', ''image/jpeg'', ''image/png'', ''image/gif'', ''image/webp''],
       allowedExtensions = [''.pdf'', ''.jpg'', ''.jpeg'', ''.png'', ''.gif'', ''.webp''],
       scanForMalware = False \<rparr>"

text \<open>The constructor: \<open>{ ...DEFAULT_OPTIONS, ...options }\<close>.\<close>

definition FileValidator :: "PartialOptions \<Rightarrow> FileValidationOptions" where
  "FileValidator options =
     \<lparr> maxSizeBytes = (case maxSizeBytes_opt options of None \<Rightarrow> maxSizeBytes DEFAULT_OPTIONS | Some v \<Rightarrow> v),
       allowedTypes = (case allowedTypes_opt options of None \<Rightarrow> allowedTypes DEFAULT_OPTIONS | Some v \<Rightarrow> v),
       allowedExtensions =
         (case allowedExtensions_opt options of None \<Rightarrow> allowedExtensions DEFAULT_OPTIONS | Some v \<Rightarrow> v),
       scanForMalware =
         (case scanForMalware_opt options of None \<Rightarrow> scanForMalware DEFAULT_OPTIONS | Some v \<Rightarrow> v) \<rparr>"

definition no_options :: PartialOptions where
  "no_options =
     \<lparr> maxSizeBytes_opt = None, allowedTypes_opt = None,
       allowedExtensions_opt = None, scanForMalware_opt = None \<rparr>"

text \<open>The exported default instance: \<open>new FileValidator()\<close>.\<close>

definition fileValidator :: FileValidationOptions where
  "fileValidator = FileValidator no_options"

subsection \<open>String primitives\<close>

text \<open>\<open>String.prototype.toLowerCase\<close> on code units below 256.\<close>

definition toLowerChar :: "char \<Rightarrow> char" where
  "toLowerChar c =
     (let n = (of_char c :: nat)
      in if (65 \<le> n \<and> n \<le> 90) \<or> (192 \<le> n \<and> n \<le> 222 \<and> n \<noteq> 215)
         then char_of (n + 32) else c)"

definition toLowerCase :: "string \<Rightarrow> string" where
  "toLowerCase s = map toLowerChar s"

text \<open>\<open>lastIndexOf\<close>: the index of the last occurrence, \<open>-1\<close> when there is none.\<close>

definition lastIndexOf :: "string \<Rightarrow> char \<Rightarrow> int" where
  "lastIndexOf s c =
     (if c \<in> set s
      then int (length s) - 1 - int (length (takeWhile (\<lambda>x. x \<noteq> c) (rev s)))
      else - 1)"

text \<open>\<open>x >>> 0\<close>: conversion to an unsigned 32-bit integer.\<close>

definition toUint32 :: "int \<Rightarrow> int" where
  "toUint32 x = x mod 2 ^ 32"

text \<open>
  \<open>String.prototype.slice\<close> with a start index only: a negative start counts from the
  end, a start beyond the end gives the empty string.
\<close>

definition slice :: "string \<Rightarrow> int \<Rightarrow> string" where
  "slice s start =
     (let len = int (length s);
          from = (if start < 0 then max (len + start) 0 else min start len)
      in drop (nat from) s)"

definition getFileExtension :: "string \<Rightarrow> string" where
  "getFileExtension filename = slice filename (toUint32 (lastIndexOf filename (CHR ''.'') - 1) + 2)"

subsection \<open>Name sanitization\<close>

text \<open>The character class of the first replacement: \<open>< > : " / \ | ? *\<close>.\<close>

definition isDangerous :: "char \<Rightarrow> bool" where
  "isDangerous c = (c \<in> set [CHR ''<'', CHR ''>'', CHR '':'', CHR 0x22, CHR ''/'', CHR 0x5C,
                               CHR ''|'', CHR ''?'', CHR ''*''])"

text \<open>
  The class \<open>\s\<close> below 256: tab, line feed, vertical tab, form feed, carriage return,
  space and no-break space.
\<close>

definition isWhitespace :: "char \<Rightarrow> bool" where
  "isWhitespace c = (c \<in> set [CHR 0x09, CHR 0x0A, CHR 0x0B, CHR 0x0C, CHR 0x0D, CHR 0x20, CHR 0xA0])"

definition isUnderscore :: "char \<Rightarrow> bool" where
  "isUnderscore c = (c = CHR ''_'')"

text \<open>\<open>.replace(/[<>:"/\\|?*]/g, '_')\<close>\<close>

definition replaceDangerous :: "string \<Rightarrow> string" where
  "replaceDangerous s = map (\<lambda>c. if isDangerous c then CHR ''_'' else c) s"

text \<open>\<open>.replace(/\s+/g, '_')\<close>: every maximal run of whitespace becomes one underscore.\<close>

function replaceWhitespace :: "string \<Rightarrow> string" where
  "replaceWhitespace [] = []"
| "replaceWhitespace (c # cs) =
     (if isWhitespace c then CHR ''_'' # replaceWhitespace (dropWhile isWhitespace cs)
      else c # replaceWhitespace cs)"
  by pat_completeness auto
termination
  by (relation "measure length") (auto simp: length_dropWhile_le less_Suc_eq_le)

text \<open>
  \<open>.replace(/_{2,}/g, '_')\<close>: every run of two or more underscores becomes one; a single
  underscore does not match and stays.
\<close>

function collapseUnderscores :: "string \<Rightarrow> string" where
  "collapseUnderscores [] = []"
| "collapseUnderscores (c # cs) =
     (if isUnderscore c then CHR ''_'' # collapseUnderscores (dropWhile isUnderscore cs)
      else c # collapseUnderscores cs)"
  by pat_completeness auto
termination
  by (relation "measure length") (auto simp: length_dropWhile_le less_Suc_eq_le)

text \<open>
  \<open>.replace(/^_+|_+$/g, '')\<close>: the leading run of underscores is removed, then the
  trailing one.
\<close>

definition trimUnderscores :: "string \<Rightarrow> string" where
  "trimUnderscores s = rev (dropWhile isUnderscore (rev (dropWhile isUnderscore s)))"

definition sanitizeFileName :: "string \<Rightarrow> string" where
  "sanitizeFileName filename =
     take 255 (trimUnderscores (collapseUnderscores (replaceWhitespace (replaceDangerous filename))))"

subsection \<open>Security checks\<close>

text \<open>
  Canonicalisation of the \<open>i\<close> flag (without the \<open>u\<close> flag): a code unit is compared
  through its upper case, and a code unit from 128 on is never mapped to one below 128.
  The patterns below are ASCII, so only the ASCII part of the mapping decides a match.
\<close>

definition canonicalize :: "char \<Rightarrow> char" where
  "canonicalize c =
     (let n = (of_char c :: nat) in if 97 \<le> n \<and> n \<le> 122 then char_of (n - 32) else c)"

text \<open>\<open>/\.exe$/i.test(name)\<close> for a literal suffix: the name ends with it, up to case.\<close>

definition testSuffix :: "string \<Rightarrow> string \<Rightarrow> bool" where
  "testSuffix suffix s =
     (length suffix \<le> length s \<and>
      map canonicalize (drop (length s - length suffix) s) = map canonicalize suffix)"

definition suspiciousPatterns :: "string list" where
  "suspiciousPatterns =
     [''.exe'', ''.bat'', ''.cmd'', ''.scr'', ''.pif'', ''.com'', ''.vbs'', ''.js'', ''.jar'']"

text \<open>\<open>String.fromCharCode(...uint8Array)\<close>\<close>

definition fromCharCode :: "8 word list \<Rightarrow> string" where
  "fromCharCode bytes = map (\<lambda>b. char_of (unat b)) bytes"

text \<open>
  \<open>validatePdfHeader\<close>: \<open>file.slice(0, 4)\<close> is read; on \<open>load\<close> the first four bytes of
  the buffer, as a string, are compared with \<open>%PDF\<close>; on \<open>error\<close> the answer is
  \<open>false\<close>. A throw inside the executor rejects the promise.
\<close>

definition validatePdfHeader :: "File \<Rightarrow> js_thrown + bool" where
  "validatePdfHeader file =
     (case file_content file of
        Readable bytes \<Rightarrow> Inr (fromCharCode (take 4 (take 4 bytes)) = ''%PDF'')
      | Unreadable \<Rightarrow> Inr False
      | ReadThrows e \<Rightarrow> Inl e)"

text \<open>The loop over the patterns: does any of them match the name?\<close>

definition matchesSuspiciousPattern :: "string \<Rightarrow> bool" where
  "matchesSuspiciousPattern filename = list_ex (\<lambda>pattern. testSuffix pattern filename) suspiciousPatterns"

definition performSecurityChecks :: "File \<Rightarrow> js_thrown + FileValidationResult" where
  "performSecurityChecks file =
     (if matchesSuspiciousPattern (file_name file)
      then Inr \<lparr> isValid = False, error = Some NotAllowedForSecurityReasons, sanitizedFile = None \<rparr>
      else if file_type file = ''application/pdf''
      then (case validatePdfHeader file of
              Inl e \<Rightarrow> Inl e
            | Inr isValidPdf \<Rightarrow>
                if \<not> isValidPdf
                then Inr \<lparr> isValid = False, error = Some InvalidPdfFileFormat, sanitizedFile = None \<rparr>
                else Inr \<lparr> isValid = True, error = None, sanitizedFile = None \<rparr>)
      else Inr \<lparr> isValid = True, error = None, sanitizedFile = None \<rparr>)"

subsection \<open>The validator\<close>

text \<open>
  The body of the \<open>try\<close> block. \<open>new File([file], sanitizedName, { type: file.type })\<close>
  has the bytes (so the size) of \<open>file\<close>, the new name and the type of \<open>file\<close>: the
  constructor normalises the type it is given, and the type of a \<open>File\<close> is already
  normalised.
\<close>

definition validateFile_try :: "FileValidationOptions \<Rightarrow> File \<Rightarrow> js_thrown + FileValidationResult" where
  "validateFile_try options file =
     (if int (file_size file) > maxSizeBytes options
      then Inr \<lparr> isValid = False, error = Some (SizeExceedsLimit (maxSizeBytes options)),
                 sanitizedFile = None \<rparr>
      else if file_type file \<notin> set (allowedTypes options)
      then Inr \<lparr> isValid = False,
                 error = Some (UnsupportedFileType (file_type file) (allowedTypes options)),
                 sanitizedFile = None \<rparr>
      else let extension = getFileExtension (file_name file) in
      if toLowerCase extension \<notin> set (allowedExtensions options)
      then Inr \<lparr> isValid = False,
                 error = Some (UnsupportedFileExtension extension (allowedExtensions options)),
                 sanitizedFile = None \<rparr>
      else let sanitizedName = sanitizeFileName (file_name file) in
      if sanitizedName \<noteq> file_name file
      then Inr \<lparr> isValid = True, error = None,
                 sanitizedFile = Some (file\<lparr>file_name := sanitizedName\<rparr>) \<rparr>
      else (case performSecurityChecks file of
              Inl e \<Rightarrow> Inl e
            | Inr securityCheck \<Rightarrow>
                if \<not> isValid securityCheck then Inr securityCheck
                else Inr \<lparr> isValid = True, error = None, sanitizedFile = None \<rparr>))"

text \<open>The \<open>catch\<close> clause: \<open>error instanceof Error ? error.message : 'Unknown error'\<close>.\<close>

definition catchMessage :: "js_thrown \<Rightarrow> string" where
  "catchMessage e = (case e of ErrorObject message \<Rightarrow> message | NonError \<Rightarrow> ''Unknown error'')"

text \<open>What the caller of a \<open>try\<close> block with this \<open>catch\<close> clause receives.\<close>

definition catchResult :: "js_thrown + FileValidationResult \<Rightarrow> FileValidationResult" where
  "catchResult outcome =
     (case outcome of
        Inr result \<Rightarrow> result
      | Inl e \<Rightarrow> \<lparr> isValid = False, error = Some (FileValidationFailed (catchMessage e)),
                   sanitizedFile = None \<rparr>)"

definition validateFile :: "FileValidationOptions \<Rightarrow> File \<Rightarrow> FileValidationResult" where
  "validateFile options file = catchResult (validateFile_try options file)"

subsection \<open>Options with undefined fields\<close>

text \<open>
  The fields of \<open>FileValidationOptions\<close> are optional, so the argument of the
  constructor may leave a field out, or hold it with the value \<open>undefined\<close>, or give it
  a value. The spread \<open>{ ...DEFAULT_OPTIONS, ...options }\<close> copies every field the
  argument holds, also an \<open>undefined\<close> one, over the default. \<open>validateFile\<close> above is
  the validator whose four fields are defined; the definitions below are the same code
  on options that may hold \<open>undefined\<close>.
\<close>

datatype 'a option_field = Absent | Undefined | Given 'a

record OptionsArgument =
  arg_maxSizeBytes :: "int option_field"
  arg_allowedTypes :: "string list option_field"
  arg_allowedExtensions :: "string list option_field"
  arg_scanForMalware :: "bool option_field"

text \<open>The options at run time: \<open>None\<close> is \<open>undefined\<close>.\<close>

record RuntimeOptions =
  rt_maxSizeBytes :: "int option"
  rt_allowedTypes :: "string list option"
  rt_allowedExtensions :: "string list option"
  rt_scanForMalware :: "bool option"

definition spreadField :: "'a \<Rightarrow> 'a option_field \<Rightarrow> 'a option" where
  "spreadField fallback field =
     (case field of Absent \<Rightarrow> Some fallback | Undefined \<Rightarrow> None | Given v \<Rightarrow> Some v)"

definition FileValidator_runtime :: "OptionsArgument \<Rightarrow> RuntimeOptions" where
  "FileValidator_runtime options =
     \<lparr> rt_maxSizeBytes = spreadField (maxSizeBytes DEFAULT_OPTIONS) (arg_maxSizeBytes options),
       rt_allowedTypes = spreadField (allowedTypes DEFAULT_OPTIONS) (arg_allowedTypes options),
       rt_allowedExtensions = spreadField (allowedExtensions DEFAULT_OPTIONS) (arg_allowedExtensions options),
       rt_scanForMalware = spreadField (scanForMalware DEFAULT_OPTIONS) (arg_scanForMalware options) \<rparr>"

text \<open>Options whose fields are all defined, as run-time options.\<close>

definition definedOptions :: "FileValidationOptions \<Rightarrow> RuntimeOptions" where
  "definedOptions options =
     \<lparr> rt_maxSizeBytes = Some (maxSizeBytes options),
       rt_allowedTypes = Some (allowedTypes options),
       rt_allowedExtensions = Some (allowedExtensions options),
       rt_scanForMalware = Some (scanForMalware options) \<rparr>"

text \<open>Steps 4 and 5 of the \<open>try\<close> block: they read no option.\<close>

definition sanitizeAndSecure :: "File \<Rightarrow> js_thrown + FileValidationResult" where
  "sanitizeAndSecure file =
     (let sanitizedName = sanitizeFileName (file_name file) in
      if sanitizedName \<noteq> file_name file
      then Inr \<lparr> isValid = True, error = None,
                 sanitizedFile = Some (file\<lparr>file_name := sanitizedName\<rparr>) \<rparr>
      else (case performSecurityChecks file of
              Inl e \<Rightarrow> Inl e
            | Inr securityCheck \<Rightarrow>
                if \<not> isValid securityCheck then Inr securityCheck
                else Inr \<lparr> isValid = True, error = None, sanitizedFile = None \<rparr>))"

text \<open>
  Steps 2 to 5. Calling \<open>includes\<close> on \<open>undefined\<close> throws a \<open>TypeError\<close>; its message
  is the engine's and is a parameter.
\<close>

definition checkTypeOnwards :: "string \<Rightarrow> RuntimeOptions \<Rightarrow> File \<Rightarrow> js_thrown + FileValidationResult" where
  "checkTypeOnwards typeErrorMessage options file =
     (case rt_allowedTypes options of
        None \<Rightarrow> Inl (ErrorObject typeErrorMessage)
      | Some types \<Rightarrow>
          if file_type file \<notin> set types
          then Inr \<lparr> isValid = False, error = Some (UnsupportedFileType (file_type file) types),
                     sanitizedFile = None \<rparr>
          else let extension = getFileExtension (file_name file) in
            (case rt_allowedExtensions options of
               None \<Rightarrow> Inl (ErrorObject typeErrorMessage)
             | Some extensions \<Rightarrow>
                 if toLowerCase extension \<notin> set extensions
                 then Inr \<lparr> isValid = False,
                            error = Some (UnsupportedFileExtension extension extensions),
                            sanitizedFile = None \<rparr>
                 else sanitizeAndSecure file))"

text \<open>
  The whole \<open>try\<close> block. \<open>file.size > undefined\<close> is \<open>false\<close>: with an undefined limit
  the size check lets every file through.
\<close>

definition validateFile_try_runtime ::
  "string \<Rightarrow> RuntimeOptions \<Rightarrow> File \<Rightarrow> js_thrown + FileValidationResult" where
  "validateFile_try_runtime typeErrorMessage options file =
     (case rt_maxSizeBytes options of
        None \<Rightarrow> checkTypeOnwards typeErrorMessage options file
      | Some limit \<Rightarrow>
          if int (file_size file) > limit
          then Inr \<lparr> isValid = False, error = Some (SizeExceedsLimit limit), sanitizedFile = None \<rparr>
          else checkTypeOnwards typeErrorMessage options file)"

definition validateFile_runtime :: "string \<Rightarrow> RuntimeOptions \<Rightarrow> File \<Rightarrow> FileValidationResult" where
  "validateFile_runtime typeErrorMessage options file =
     catchResult (validateFile_try_runtime typeErrorMessage options file)"

subsection \<open>The text of a message\<close>

text \<open>\<open>Array.prototype.join(', ')\<close>\<close>

fun join :: "string list \<Rightarrow> string" where
  "join [] = []"
| "join [x] = x"
| "join (x # y # ys) = x @ '', '' @ join (y # ys)"

text \<open>
  The string each error stands for. \<open>formatBytes\<close> computes with floating-point
  logarithms and \<open>toFixed\<close>; it is a parameter here.
\<close>

fun errorText :: "(int \<Rightarrow> string) \<Rightarrow> validation_error \<Rightarrow> string" where
  "errorText formatBytes (SizeExceedsLimit limit) =
     ''File size exceeds limit. Maximum allowed: '' @ formatBytes limit"
| "errorText formatBytes (UnsupportedFileType t allowed) =
     ''Unsupported file type: '' @ t @ ''. Allowed types: '' @ join allowed"
| "errorText formatBytes (UnsupportedFileExtension extension allowed) =
     ''Unsupported file extension: '' @ extension @ ''. Allowed extensions: '' @ join allowed"
| "errorText formatBytes NotAllowedForSecurityReasons = ''File type not allowed for security reasons''"
| "errorText formatBytes InvalidPdfFileFormat = ''Invalid PDF file format''"
| "errorText formatBytes (FileValidationFailed message) = ''File validation failed: '' @ message"

subsection \<open>Predicates used in the statements\<close>

text \<open>Checks 1 to 3 of \<open>validateFile\<close> let the file through: size, declared type, extension.\<close>

definition passesSizeTypeExtension :: "FileValidationOptions \<Rightarrow> File \<Rightarrow> bool" where
  "passesSizeTypeExtension options file =
     (int (file_size file) \<le> maxSizeBytes options \<and>
      file_type file \<in> set (allowedTypes options) \<and>
      toLowerCase (getFileExtension (file_name file)) \<in> set (allowedExtensions options))"

text \<open>The same three checks on run-time options, and each of them alone.\<close>

definition withinSizeLimit :: "RuntimeOptions \<Rightarrow> File \<Rightarrow> bool" where
  "withinSizeLimit options file =
     (case rt_maxSizeBytes options of None \<Rightarrow> True | Some limit \<Rightarrow> int (file_size file) \<le> limit)"

definition typeAllowed :: "RuntimeOptions \<Rightarrow> File \<Rightarrow> bool" where
  "typeAllowed options file =
     (case rt_allowedTypes options of None \<Rightarrow> False | Some types \<Rightarrow> file_type file \<in> set types)"

definition extensionAllowed :: "RuntimeOptions \<Rightarrow> File \<Rightarrow> bool" where
  "extensionAllowed options file =
     (case rt_allowedExtensions options of
        None \<Rightarrow> False
      | Some extensions \<Rightarrow> toLowerCase (getFileExtension (file_name file)) \<in> set extensions)"

text \<open>
  The file gets as far as the header check of \<open>performSecurityChecks\<close>: checks 1 to 3
  pass, the name needs no rename and matches no pattern, the declared type is PDF.
\<close>

definition reachesHeaderCheck :: "RuntimeOptions \<Rightarrow> File \<Rightarrow> bool" where
  "reachesHeaderCheck options file =
     (withinSizeLimit options file \<and> typeAllowed options file \<and> extensionAllowed options file \<and>
      sanitizeFileName (file_name file) = file_name file \<and>
      \<not> matchesSuspiciousPattern (file_name file) \<and>
      file_type file = ''application/pdf'')"

text \<open>
  The two places where an undefined allowlist is used: check 2 is reached and
  \<open>allowedTypes\<close> is undefined; check 3 is reached and \<open>allowedExtensions\<close> is undefined.
\<close>

definition typesUndefinedAtCheck :: "RuntimeOptions \<Rightarrow> File \<Rightarrow> bool" where
  "typesUndefinedAtCheck options file =
     (withinSizeLimit options file \<and> rt_allowedTypes options = None)"

definition extensionsUndefinedAtCheck :: "RuntimeOptions \<Rightarrow> File \<Rightarrow> bool" where
  "extensionsUndefinedAtCheck options file =
     (withinSizeLimit options file \<and> typeAllowed options file \<and> rt_allowedExtensions options = None)"

definition genericFailure :: "string \<Rightarrow> FileValidationResult" where
  "genericFailure message =
     \<lparr> isValid = False, error = Some (FileValidationFailed message), sanitizedFile = None \<rparr>"

text \<open>The bytes of the ASCII literal \<open>%PDF\<close>.\<close>

definition pdfMagic :: "8 word list" where
  "pdfMagic = [0x25, 0x50, 0x44, 0x46]"

text \<open>The result carries the message of the \<open>catch\<close> clause.\<close>

fun isGenericFailure :: "validation_error \<Rightarrow> bool" where
  "isGenericFailure (FileValidationFailed message) = True"
| "isGenericFailure (SizeExceedsLimit limit) = False"
| "isGenericFailure (UnsupportedFileType t allowed) = False"
| "isGenericFailure (UnsupportedFileExtension extension allowed) = False"
| "isGenericFailure NotAllowedForSecurityReasons = False"
| "isGenericFailure InvalidPdfFileFormat = False"

text \<open>
  An extension as the default allowlist writes it: a dot, then characters other than a dot.
\<close>

definition isDotted :: "string \<Rightarrow> bool" where
  "isDotted e = (case e of [] \<Rightarrow> False | c # r \<Rightarrow> c = CHR ''.'' \<and> CHR ''.'' \<notin> set r)"

text \<open>No two adjacent underscores: what the third replacement establishes.\<close>

fun noDoubleUnderscore :: "string \<Rightarrow> bool" where
  "noDoubleUnderscore [] = True"
| "noDoubleUnderscore [c] = True"
| "noDoubleUnderscore (c # d # cs) = (\<not> (isUnderscore c \<and> isUnderscore d) \<and> noDoubleUnderscore (d # cs))"

text \<open>The name ends with an underscore.\<close>

definition hasTrailingUnderscore :: "string \<Rightarrow> bool" where
  "hasTrailingUnderscore s = (s \<noteq> [] \<and> isUnderscore (last s))"

subsection \<open>Example inputs\<close>

text \<open>
  Validators built with the constructor: one whose extensions are written without the
  dot, one that lets \<open>exe\<close> through check 3, one whose allowlist holds the empty string.
\<close>

definition undottedValidator :: FileValidationOptions where
  "undottedValidator =
     FileValidator (no_options\<lparr>allowedExtensions_opt :=
       Some [''pdf'', ''jpg'', ''jpeg'', ''png'', ''gif'', ''webp'']\<rparr>)"

definition exeValidator :: FileValidationOptions where
  "exeValidator = FileValidator (no_options\<lparr>allowedExtensions_opt := Some [''exe'']\<rparr>)"

definition emptyExtensionValidator :: FileValidationOptions where
  "emptyExtensionValidator = FileValidator (no_options\<lparr>allowedExtensions_opt := Some ['''']\<rparr>)"

text \<open>A validator with a limit of three bytes.\<close>

definition tinyValidator :: FileValidationOptions where
  "tinyValidator = FileValidator (no_options\<lparr>maxSizeBytes_opt := Some 3\<rparr>)"

text \<open>
  Arguments of the constructor that hold an undefined allowlist:
  \<open>{ allowedTypes: undefined }\<close> and \<open>{ allowedExtensions: undefined }\<close>.
\<close>

definition no_argument :: OptionsArgument where
  "no_argument =
     \<lparr> arg_maxSizeBytes = Absent, arg_allowedTypes = Absent,
       arg_allowedExtensions = Absent, arg_scanForMalware = Absent \<rparr>"

definition undefinedTypesValidator :: RuntimeOptions where
  "undefinedTypesValidator = FileValidator_runtime (no_argument\<lparr>arg_allowedTypes := Undefined\<rparr>)"

definition undefinedExtensionsValidator :: RuntimeOptions where
  "undefinedExtensionsValidator =
     FileValidator_runtime (no_argument\<lparr>arg_allowedExtensions := Undefined\<rparr>)"

text \<open>A validator whose allowlist holds two extensions with an underscore.\<close>

definition underscoreValidator :: FileValidationOptions where
  "underscoreValidator = FileValidator (no_options\<lparr>allowedExtensions_opt := Some [''p_d'', ''p_'']\<rparr>)"

text \<open>A four-byte file with the given name, declared type and content.\<close>

definition sampleFile :: "string \<Rightarrow> string \<Rightarrow> file_content \<Rightarrow> File" where
  "sampleFile filename t content =
     \<lparr> file_name = filename, file_type = t, file_size = 4, file_content = content \<rparr>"

text \<open>A name of 260 code units: 254 letters, then \<open>_b.pdf\<close>.\<close>

definition longName :: string where
  "longName = replicate 254 (CHR ''a'') @ ''_b.pdf''"

text \<open>A name of 256 code units: 252 letters, then \<open>.p_d\<close>.\<close>

definition longUnderscoreName :: string where
  "longUnderscoreName = replicate 252 (CHR ''a'') @ ''.p_d''"

section \<open>Properties of the sanitizer\<close>

subsection \<open>Names without a double underscore\<close>

lemma noDouble_Cons:
  "noDoubleUnderscore (c # t) = (noDoubleUnderscore t \<and> (t = [] \<or> \<not> (isUnderscore c \<and> isUnderscore (hd t))))"
  by (cases t) auto

lemma noDouble_snoc:
  "noDoubleUnderscore (t @ [c]) = (noDoubleUnderscore t \<and> (t = [] \<or> \<not> (isUnderscore (last t) \<and> isUnderscore c)))"
  by (induction t rule: noDoubleUnderscore.induct) auto

lemma noDouble_rev: "noDoubleUnderscore (rev s) = noDoubleUnderscore s"
proof (induction s)
  case Nil
  show ?case by simp
next
  case (Cons c cs)
  have "noDoubleUnderscore (rev (c # cs)) = noDoubleUnderscore (rev cs @ [c])" by simp
  also have "\<dots> = (noDoubleUnderscore (rev cs) \<and>
                    (rev cs = [] \<or> \<not> (isUnderscore (last (rev cs)) \<and> isUnderscore c)))"
    by (rule noDouble_snoc)
  also have "\<dots> = (noDoubleUnderscore cs \<and> (cs = [] \<or> \<not> (isUnderscore c \<and> isUnderscore (hd cs))))"
    using Cons.IH by (cases "cs = []") (auto simp: last_rev)
  also have "\<dots> = noDoubleUnderscore (c # cs)" by (rule noDouble_Cons [symmetric])
  finally show ?case .
qed

lemma noDouble_suffix: "noDoubleUnderscore (xs @ ys) \<Longrightarrow> noDoubleUnderscore ys"
  by (induction xs) (auto simp: noDouble_Cons)

lemma noDouble_prefix: "noDoubleUnderscore (xs @ ys) \<Longrightarrow> noDoubleUnderscore xs"
  by (induction xs) (auto simp: noDouble_Cons)

lemma noDouble_dropWhile: "noDoubleUnderscore s \<Longrightarrow> noDoubleUnderscore (dropWhile P s)"
  using noDouble_suffix [of "takeWhile P s" "dropWhile P s"] by simp

lemma noDouble_take: "noDoubleUnderscore s \<Longrightarrow> noDoubleUnderscore (take n s)"
  using noDouble_prefix [of "take n s" "drop n s"] by simp

lemma replaceDangerous_id: "\<not> list_ex isDangerous s \<Longrightarrow> replaceDangerous s = s"
  by (induction s) (auto simp: replaceDangerous_def)

lemma replaceWhitespace_id: "\<not> list_ex isWhitespace s \<Longrightarrow> replaceWhitespace s = s"
  by (induction s) auto

lemma dropWhile_hd_id: "s = [] \<or> \<not> P (hd s) \<Longrightarrow> dropWhile P s = s"
  by (cases s) auto

lemma collapseUnderscores_id: "noDoubleUnderscore s \<Longrightarrow> collapseUnderscores s = s"
proof (induction s)
  case Nil
  show ?case by simp
next
  case (Cons c cs)
  then have cs: "noDoubleUnderscore cs" and hd: "cs = [] \<or> \<not> (isUnderscore c \<and> isUnderscore (hd cs))"
    by (simp_all add: noDouble_Cons)
  show ?case
  proof (cases "isUnderscore c")
    case True
    with hd have "dropWhile isUnderscore cs = cs" by (intro dropWhile_hd_id) auto
    with True Cons.IH cs show ?thesis by (simp add: isUnderscore_def)
  next
    case False
    with Cons.IH cs show ?thesis by simp
  qed
qed

lemma replaceDangerous_clean: "\<not> list_ex isDangerous (replaceDangerous s)"
  by (induction s) (auto simp: replaceDangerous_def isDangerous_def)

lemma replaceWhitespace_set: "set (replaceWhitespace s) \<subseteq> insert (CHR ''_'') (set s)"
proof (induction s rule: replaceWhitespace.induct)
  case 1
  show ?case by simp
next
  case (2 c cs)
  show ?case
  proof (cases "isWhitespace c")
    case True
    with 2 have "set (replaceWhitespace (dropWhile isWhitespace cs)) \<subseteq> insert (CHR ''_'') (set (dropWhile isWhitespace cs))"
      by simp
    moreover have "set (dropWhile isWhitespace cs) \<subseteq> set cs"
      by (auto dest: set_dropWhileD)
    ultimately show ?thesis using True by auto
  next
    case False
    with 2 show ?thesis by auto
  qed
qed

lemma replaceWhitespace_clean: "\<not> list_ex isWhitespace (replaceWhitespace s)"
  by (induction s rule: replaceWhitespace.induct) (auto simp: isWhitespace_def)

lemma collapseUnderscores_set: "set (collapseUnderscores s) \<subseteq> set s"
proof (induction s rule: collapseUnderscores.induct)
  case 1
  show ?case by simp
next
  case (2 c cs)
  show ?case
  proof (cases "isUnderscore c")
    case True
    with 2 have "set (collapseUnderscores (dropWhile isUnderscore cs)) \<subseteq> set (dropWhile isUnderscore cs)"
      by simp
    moreover have "set (dropWhile isUnderscore cs) \<subseteq> set cs"
      by (auto dest: set_dropWhileD)
    ultimately show ?thesis using True by (auto simp: isUnderscore_def)
  next
    case False
    with 2 show ?thesis by auto
  qed
qed

lemma collapseUnderscores_hd:
  "s \<noteq> [] \<Longrightarrow> collapseUnderscores s \<noteq> [] \<and> hd (collapseUnderscores s) = hd s"
  by (cases s) (auto simp: isUnderscore_def)

lemma collapseUnderscores_Nil: "collapseUnderscores s = [] \<longleftrightarrow> s = []"
  by (cases s) auto

lemma collapseUnderscores_noDouble: "noDoubleUnderscore (collapseUnderscores s)"
proof (induction s rule: collapseUnderscores.induct)
  case 1
  show ?case by simp
next
  case (2 c cs)
  show ?case
  proof (cases "isUnderscore c")
    case True
    let ?d = "dropWhile isUnderscore cs"
    from True 2 have ih: "noDoubleUnderscore (collapseUnderscores ?d)" by simp
    have "collapseUnderscores ?d = [] \<or> \<not> isUnderscore (hd (collapseUnderscores ?d))"
    proof (cases "?d = []")
      case True
      show ?thesis unfolding True by simp
    next
      case False
      then have "\<not> isUnderscore (hd ?d)" by (rule hd_dropWhile)
      with False collapseUnderscores_hd [of ?d] show ?thesis by simp
    qed
    with ih True show ?thesis by (simp add: noDouble_Cons)
  next
    case False
    with 2 show ?thesis by (simp add: noDouble_Cons)
  qed
qed

lemma length_replaceWhitespace: "length (replaceWhitespace s) \<le> length s"
proof (induction s rule: replaceWhitespace.induct)
  case 1
  show ?case by simp
next
  case (2 c cs)
  have "length (dropWhile isWhitespace cs) \<le> length cs" by (rule length_dropWhile_le)
  with 2 show ?case by (cases "isWhitespace c") auto
qed

lemma length_collapseUnderscores: "length (collapseUnderscores s) \<le> length s"
proof (induction s rule: collapseUnderscores.induct)
  case 1
  show ?case by simp
next
  case (2 c cs)
  have "length (dropWhile isUnderscore cs) \<le> length cs" by (rule length_dropWhile_le)
  with 2 show ?case by (cases "isUnderscore c") auto
qed

lemma dropWhile_snoc_keep: "\<not> P x \<Longrightarrow> \<exists>ys. dropWhile P (xs @ [x]) = ys @ [x]"
  by (induction xs) auto

lemma stripTrailing_hd:
  assumes "d \<noteq> []" "\<not> P (hd d)"
  shows "rev (dropWhile P (rev d)) \<noteq> [] \<and> hd (rev (dropWhile P (rev d))) = hd d"
proof -
  obtain x d' where d: "d = x # d'" using assms(1) by (cases d) auto
  with assms(2) obtain ys where "dropWhile P (rev d' @ [x]) = ys @ [x]"
    using dropWhile_snoc_keep [of P x "rev d'"] by auto
  with d show ?thesis by simp
qed

lemma stripTrailing_last:
  "rev (dropWhile P (rev d)) = [] \<or> \<not> P (last (rev (dropWhile P (rev d))))"
  using hd_dropWhile [of P "rev d"] by (auto simp: last_rev)

lemma trimUnderscores_hd: "trimUnderscores s = [] \<or> \<not> isUnderscore (hd (trimUnderscores s))"
proof (cases "dropWhile isUnderscore s = []")
  case True
  show ?thesis unfolding trimUnderscores_def True by simp
next
  case False
  then have h: "\<not> isUnderscore (hd (dropWhile isUnderscore s))" by (rule hd_dropWhile)
  have "hd (rev (dropWhile isUnderscore (rev (dropWhile isUnderscore s)))) = hd (dropWhile isUnderscore s)"
    using stripTrailing_hd [of "dropWhile isUnderscore s" isUnderscore] False h by simp
  with h have "\<not> isUnderscore (hd (trimUnderscores s))"
    unfolding trimUnderscores_def by metis
  then show ?thesis by (rule disjI2)
qed

lemma trimUnderscores_last: "trimUnderscores s = [] \<or> \<not> isUnderscore (last (trimUnderscores s))"
  unfolding trimUnderscores_def by (rule stripTrailing_last)

lemma trimUnderscores_set: "set (trimUnderscores s) \<subseteq> set s"
  by (auto simp: trimUnderscores_def dest!: set_dropWhileD)

lemma trimUnderscores_noDouble: "noDoubleUnderscore s \<Longrightarrow> noDoubleUnderscore (trimUnderscores s)"
  by (simp add: trimUnderscores_def noDouble_rev noDouble_dropWhile)

lemma length_trimUnderscores: "length (trimUnderscores s) \<le> length s"
proof -
  have "length (trimUnderscores s) \<le> length (dropWhile isUnderscore s)"
    using length_dropWhile_le [of isUnderscore "rev (dropWhile isUnderscore s)"]
    by (simp add: trimUnderscores_def)
  also have "\<dots> \<le> length s" by (rule length_dropWhile_le)
  finally show ?thesis .
qed

lemma sanitizeFileName_no_dangerous: "\<not> list_ex isDangerous (sanitizeFileName s)"
proof -
  have "set (sanitizeFileName s) \<subseteq> insert (CHR ''_'') (set (replaceDangerous s))"
    unfolding sanitizeFileName_def
    using set_take_subset [of 255 "trimUnderscores (collapseUnderscores (replaceWhitespace (replaceDangerous s)))"]
      trimUnderscores_set [of "collapseUnderscores (replaceWhitespace (replaceDangerous s))"]
      collapseUnderscores_set [of "replaceWhitespace (replaceDangerous s)"]
      replaceWhitespace_set [of "replaceDangerous s"]
    by blast
  moreover have "\<not> isDangerous (CHR ''_'')" by (simp add: isDangerous_def)
  ultimately show ?thesis
    using replaceDangerous_clean [of s] by (auto simp: list_ex_iff)
qed

lemma sanitizeFileName_no_whitespace: "\<not> list_ex isWhitespace (sanitizeFileName s)"
proof -
  have "set (sanitizeFileName s) \<subseteq> set (replaceWhitespace (replaceDangerous s))"
    unfolding sanitizeFileName_def
    using set_take_subset [of 255 "trimUnderscores (collapseUnderscores (replaceWhitespace (replaceDangerous s)))"]
      trimUnderscores_set [of "collapseUnderscores (replaceWhitespace (replaceDangerous s))"]
      collapseUnderscores_set [of "replaceWhitespace (replaceDangerous s)"]
    by blast
  then show ?thesis
    using replaceWhitespace_clean [of "replaceDangerous s"] by (auto simp: list_ex_iff)
qed

lemma sanitizeFileName_noDouble: "noDoubleUnderscore (sanitizeFileName s)"
  unfolding sanitizeFileName_def
  by (intro noDouble_take trimUnderscores_noDouble collapseUnderscores_noDouble)

lemma sanitizeFileName_hd: "sanitizeFileName s = [] \<or> \<not> isUnderscore (hd (sanitizeFileName s))"
proof -
  let ?t = "trimUnderscores (collapseUnderscores (replaceWhitespace (replaceDangerous s)))"
  have "?t = [] \<or> \<not> isUnderscore (hd ?t)" by (rule trimUnderscores_hd)
  then show ?thesis
  proof
    assume "?t = []"
    then show ?thesis by (simp add: sanitizeFileName_def)
  next
    assume "\<not> isUnderscore (hd ?t)"
    then show ?thesis by (simp add: sanitizeFileName_def)
  qed
qed

lemma length_sanitizeFileName: "length (sanitizeFileName s) \<le> 255"
  by (simp add: sanitizeFileName_def)

text \<open>A second pass only strips the underscore that truncation may have left at the end.\<close>

lemma sanitizeFileName_twice:
  "sanitizeFileName (sanitizeFileName s) = rev (dropWhile isUnderscore (rev (sanitizeFileName s)))"
proof -
  let ?t = "sanitizeFileName s"
  have 1: "replaceDangerous ?t = ?t"
    by (rule replaceDangerous_id) (rule sanitizeFileName_no_dangerous)
  have 2: "replaceWhitespace ?t = ?t"
    by (rule replaceWhitespace_id) (rule sanitizeFileName_no_whitespace)
  have 3: "collapseUnderscores ?t = ?t"
    by (rule collapseUnderscores_id) (rule sanitizeFileName_noDouble)
  have 4: "dropWhile isUnderscore ?t = ?t"
    by (rule dropWhile_hd_id) (rule sanitizeFileName_hd)
  have "length (rev (dropWhile isUnderscore (rev ?t))) \<le> length ?t"
    using length_dropWhile_le [of isUnderscore "rev ?t"] by simp
  with length_sanitizeFileName [of s]
  have 5: "take 255 (rev (dropWhile isUnderscore (rev ?t))) = rev (dropWhile isUnderscore (rev ?t))"
    by simp
  have "sanitizeFileName ?t = take 255 (trimUnderscores ?t)"
    unfolding sanitizeFileName_def [of ?t] 1 2 3 ..
  also have "\<dots> = take 255 (rev (dropWhile isUnderscore (rev ?t)))"
    unfolding trimUnderscores_def 4 ..
  also note 5
  finally show ?thesis .
qed

lemma sanitizeFileName_idem_iff:
  "sanitizeFileName (sanitizeFileName s) = sanitizeFileName s \<longleftrightarrow>
   \<not> hasTrailingUnderscore (sanitizeFileName s)"
proof (cases "hasTrailingUnderscore (sanitizeFileName s)")
  case True
  then obtain xs where t: "sanitizeFileName s = xs @ [CHR ''_'']"
    unfolding hasTrailingUnderscore_def isUnderscore_def
    by (metis append_butlast_last_id)
  have "length (sanitizeFileName (sanitizeFileName s)) =
        length (dropWhile isUnderscore (rev (sanitizeFileName s)))"
    by (simp add: sanitizeFileName_twice)
  also have "dropWhile isUnderscore (rev (sanitizeFileName s)) = dropWhile isUnderscore (rev xs)"
    by (simp add: t isUnderscore_def)
  also have "length (dropWhile isUnderscore (rev xs)) \<le> length xs"
    using length_dropWhile_le [of isUnderscore "rev xs"] by simp
  also have "length xs < length (sanitizeFileName s)" by (simp add: t)
  finally have "length (sanitizeFileName (sanitizeFileName s)) < length (sanitizeFileName s)" .
  with True show ?thesis by auto
next
  case False
  then have "rev (sanitizeFileName s) = [] \<or> \<not> isUnderscore (hd (rev (sanitizeFileName s)))"
    by (auto simp: hasTrailingUnderscore_def hd_rev)
  then have "dropWhile isUnderscore (rev (sanitizeFileName s)) = rev (sanitizeFileName s)"
    by (rule dropWhile_hd_id)
  with False show ?thesis by (simp add: sanitizeFileName_twice)
qed

lemma sanitizeFileName_short:
  assumes "length s \<le> 255"
  shows "\<not> hasTrailingUnderscore (sanitizeFileName s)"
proof -
  let ?t = "trimUnderscores (collapseUnderscores (replaceWhitespace (replaceDangerous s)))"
  have "length ?t \<le> length (collapseUnderscores (replaceWhitespace (replaceDangerous s)))"
    by (rule length_trimUnderscores)
  also have "\<dots> \<le> length (replaceWhitespace (replaceDangerous s))"
    by (rule length_collapseUnderscores)
  also have "\<dots> \<le> length (replaceDangerous s)"
    by (rule length_replaceWhitespace)
  also have "\<dots> = length s" by (simp add: replaceDangerous_def)
  finally have "length ?t \<le> 255" using assms by simp
  then have "sanitizeFileName s = ?t" by (simp add: sanitizeFileName_def)
  with trimUnderscores_last [of "collapseUnderscores (replaceWhitespace (replaceDangerous s))"]
  show ?thesis by (auto simp: hasTrailingUnderscore_def)
qed

section \<open>Properties of extension extraction\<close>

lemma of_char_toLowerChar:
  "(of_char (toLowerChar c) :: nat) =
     (let n = of_char c in if (65 \<le> n \<and> n \<le> 90) \<or> (192 \<le> n \<and> n \<le> 222 \<and> n \<noteq> 215) then n + 32 else n)"
  by (auto simp: toLowerChar_def Let_def)

lemma toLowerChar_dot: "toLowerChar c = CHR ''.'' \<longleftrightarrow> c = CHR ''.''"
proof -
  have "toLowerChar c = CHR ''.'' \<longleftrightarrow> (of_char (toLowerChar c) :: nat) = of_char (CHR ''.'')"
    by (simp only: of_char_eq_iff)
  also have "\<dots> \<longleftrightarrow> (of_char c :: nat) = of_char (CHR ''.'')"
    unfolding of_char_toLowerChar by (auto simp: Let_def)
  also have "\<dots> \<longleftrightarrow> c = CHR ''.''"
    by (simp only: of_char_eq_iff)
  finally show ?thesis .
qed

lemma dot_in_toLowerCase: "CHR ''.'' \<in> set (toLowerCase r) \<longleftrightarrow> CHR ''.'' \<in> set r"
  by (induction r) (simp_all add: toLowerCase_def toLowerChar_dot eq_commute [of "CHR ''.''"])

lemma isDotted_toLowerCase: "isDotted (toLowerCase e) = isDotted e"
proof (cases e)
  case Nil
  then show ?thesis by (simp add: toLowerCase_def)
next
  case (Cons c r)
  have "toLowerCase e = toLowerChar c # toLowerCase r"
    by (simp add: Cons toLowerCase_def)
  then show ?thesis
    by (simp add: isDotted_def Cons toLowerChar_dot dot_in_toLowerCase)
qed

lemma lastIndexOf_last:
  assumes "s = xs @ c # r" "c \<notin> set r"
  shows "lastIndexOf s c = int (length xs)"
proof -
  have "takeWhile (\<lambda>x. x \<noteq> c) (rev r @ c # rev xs) = rev r"
    using assms(2) by (subst takeWhile_tail) auto
  then have "takeWhile (\<lambda>x. x \<noteq> c) (rev s) = rev r"
    using assms(1) by simp
  then show ?thesis using assms by (simp add: lastIndexOf_def)
qed

lemma lastIndexOf_absent: "c \<notin> set s \<Longrightarrow> lastIndexOf s c = - 1"
  by (simp add: lastIndexOf_def)

lemma mod_pred_absurd:
  assumes "(x::int) mod 2 ^ 32 = x - 1"
  shows False
proof -
  have "x = 2 ^ 32 * (x div 2 ^ 32) + x mod 2 ^ 32" by simp
  with assms have "(2::int) ^ 32 * (x div 2 ^ 32) = 1" by linarith
  then have "(2::int) ^ 32 dvd 1" by (metis dvd_triv_left)
  then show False by simp
qed

lemma getFileExtension_not_dotted: "\<not> isDotted (getFileExtension s)"
proof
  assume d: "isDotted (getFileExtension s)"
  let ?start = "toUint32 (lastIndexOf s (CHR ''.'') - 1) + 2"
  let ?k = "nat (min ?start (int (length s)))"
  have start: "0 \<le> ?start" by (simp add: toUint32_def)
  then have ext: "getFileExtension s = drop ?k s"
    by (simp add: getFileExtension_def slice_def Let_def)
  from d obtain r where r: "drop ?k s = CHR ''.'' # r" "CHR ''.'' \<notin> set r"
    unfolding ext isDotted_def by (auto split: list.splits)
  then have klen: "?k < length s" by (metis drop_eq_Nil leI list.distinct(1))
  have s: "s = take ?k s @ CHR ''.'' # r" using r(1) by (metis append_take_drop_id)
  have "lastIndexOf s (CHR ''.'') = int (length (take ?k s))"
    using s r(2) by (rule lastIndexOf_last)
  also have "\<dots> = int ?k" using klen by simp
  finally have li: "lastIndexOf s (CHR ''.'') = int ?k" .
  from klen start have "int ?k = ?start" by linarith
  with li have "toUint32 (lastIndexOf s (CHR ''.'') - 1) = (lastIndexOf s (CHR ''.'') - 1) - 1"
    by linarith
  then show False unfolding toUint32_def by (rule mod_pred_absurd)
qed

lemma getFileExtension_no_dot:
  assumes "CHR ''.'' \<notin> set s" "length s < 2 ^ 32"
  shows "getFileExtension s = []"
proof -
  have "toUint32 (lastIndexOf s (CHR ''.'') - 1) + 2 = 2 ^ 32"
    using assms(1) by (simp add: lastIndexOf_absent toUint32_def)
  then show ?thesis using assms(2) by (simp add: getFileExtension_def slice_def Let_def)
qed

lemma getFileExtension_after_last_dot:
  assumes "s = xs @ CHR ''.'' # r" "CHR ''.'' \<notin> set r" "xs \<noteq> []" "length s < 2 ^ 32"
  shows "getFileExtension s = r"
proof -
  have li: "lastIndexOf s (CHR ''.'') = int (length xs)" using assms(1,2) by (rule lastIndexOf_last)
  have "0 \<le> int (length xs) - 1" "int (length xs) - 1 < 2 ^ 32" using assms by auto
  then have "toUint32 (lastIndexOf s (CHR ''.'') - 1) + 2 = int (length xs) + 1"
    unfolding li by (simp add: toUint32_def)
  then have "getFileExtension s = slice s (int (length xs) + 1)"
    by (simp only: getFileExtension_def)
  also have "\<dots> = drop (Suc (length xs)) s"
    using assms(1) by (simp add: slice_def Let_def nat_add_distrib)
  also have "\<dots> = r" using assms(1) by simp
  finally show ?thesis .
qed

lemma getFileExtension_leading_dot:
  assumes "s = CHR ''.'' # r" "CHR ''.'' \<notin> set r" "length s < 2 ^ 32"
  shows "getFileExtension s = []"
proof -
  have li: "lastIndexOf s (CHR ''.'') = int (length ([]::string))"
    using assms(1,2) by (intro lastIndexOf_last) auto
  have "toUint32 (lastIndexOf s (CHR ''.'') - 1) + 2 = 2 ^ 32 + 1"
    unfolding li by (simp add: toUint32_def)
  then have "getFileExtension s = slice s (2 ^ 32 + 1)"
    by (simp only: getFileExtension_def)
  then show ?thesis using assms(3) by (simp add: slice_def Let_def)
qed

lemma fileValidator_eq: "fileValidator = DEFAULT_OPTIONS"
  by (simp add: fileValidator_def FileValidator_def no_options_def DEFAULT_OPTIONS_def)

lemma default_extensions_dotted: "list_all isDotted (allowedExtensions DEFAULT_OPTIONS)"
  by (simp add: DEFAULT_OPTIONS_def isDotted_def)

lemma default_extension_check_fails:
  "toLowerCase (getFileExtension s) \<notin> set (allowedExtensions DEFAULT_OPTIONS)"
proof
  assume "toLowerCase (getFileExtension s) \<in> set (allowedExtensions DEFAULT_OPTIONS)"
  with default_extensions_dotted have "isDotted (toLowerCase (getFileExtension s))"
    by (simp add: list_all_iff)
  then show False by (simp add: isDotted_toLowerCase getFileExtension_not_dotted)
qed

section \<open>Properties of the validator\<close>

lemma getFileExtension_dotless:
  assumes "length s < 2 ^ 32"
  shows "CHR ''.'' \<notin> set (getFileExtension s)"
proof (cases "CHR ''.'' \<in> set s")
  case False
  with assms show ?thesis by (simp add: getFileExtension_no_dot)
next
  case True
  then obtain xs r where s: "s = xs @ CHR ''.'' # r" and r: "CHR ''.'' \<notin> set r"
    by (auto dest: split_list_last)
  show ?thesis
  proof (cases "xs = []")
    case True
    with s r assms show ?thesis by (simp add: getFileExtension_leading_dot)
  next
    case False
    with s r assms show ?thesis by (simp add: getFileExtension_after_last_dot)
  qed
qed

lemma fromCharCode_inj: "fromCharCode xs = fromCharCode ys \<Longrightarrow> xs = ys"
proof (induction xs arbitrary: ys)
  case Nil
  then show ?case by (simp add: fromCharCode_def)
next
  case (Cons x xs)
  then obtain y ys' where ys: "ys = y # ys'" by (cases ys) (auto simp: fromCharCode_def)
  with Cons.prems have c: "char_of (unat x) = char_of (unat y)" and t: "fromCharCode xs = fromCharCode ys'"
    by (simp_all add: fromCharCode_def)
  have "unat x < 2 ^ LENGTH(8)" "unat y < 2 ^ LENGTH(8)" by (rule unsigned_less)+
  then have "unat x < 256" "unat y < 256" by simp_all
  with c have "unat x = unat y" by (simp add: char_of_eq_iff take_bit_nat_eq_self)
  then have "x = y" by (simp add: word_unat_eq_iff)
  with t Cons.IH ys show ?case by simp
qed

lemma fromCharCode_pdfMagic: "fromCharCode pdfMagic = ''%PDF''"
  by code_simp

lemma header_is_pdf: "(fromCharCode (take 4 bytes) = ''%PDF'') = (take 4 bytes = pdfMagic)"
proof -
  have "(fromCharCode (take 4 bytes) = fromCharCode pdfMagic) = (take 4 bytes = pdfMagic)"
    by (auto dest: fromCharCode_inj)
  then show ?thesis by (simp only: fromCharCode_pdfMagic)
qed

lemma validatePdfHeader_Readable:
  "file_content file = Readable bytes \<Longrightarrow> validatePdfHeader file = Inr (take 4 bytes = pdfMagic)"
  by (simp add: validatePdfHeader_def header_is_pdf)

lemma validatePdfHeader_Unreadable:
  "file_content file = Unreadable \<Longrightarrow> validatePdfHeader file = Inr False"
  by (simp add: validatePdfHeader_def)

lemma validatePdfHeader_ReadThrows:
  "file_content file = ReadThrows e \<Longrightarrow> validatePdfHeader file = Inl e"
  by (simp add: validatePdfHeader_def)

lemma validatePdfHeader_Inl:
  "validatePdfHeader file = Inl e \<Longrightarrow> file_content file = ReadThrows e"
  by (cases "file_content file") (simp_all add: validatePdfHeader_def)

text \<open>The four ways out of \<open>validateFile\<close> before the security checks, and the way into them.\<close>

lemma validateFile_too_large:
  "maxSizeBytes options < int (file_size file) \<Longrightarrow>
   validateFile options file =
     \<lparr> isValid = False, error = Some (SizeExceedsLimit (maxSizeBytes options)), sanitizedFile = None \<rparr>"
  by (simp add: validateFile_def validateFile_try_def catchResult_def)

lemma validateFile_bad_type:
  "int (file_size file) \<le> maxSizeBytes options \<Longrightarrow> file_type file \<notin> set (allowedTypes options) \<Longrightarrow>
   validateFile options file =
     \<lparr> isValid = False, error = Some (UnsupportedFileType (file_type file) (allowedTypes options)),
       sanitizedFile = None \<rparr>"
  by (simp add: validateFile_def validateFile_try_def catchResult_def)

lemma validateFile_bad_extension:
  "int (file_size file) \<le> maxSizeBytes options \<Longrightarrow> file_type file \<in> set (allowedTypes options) \<Longrightarrow>
   toLowerCase (getFileExtension (file_name file)) \<notin> set (allowedExtensions options) \<Longrightarrow>
   validateFile options file =
     \<lparr> isValid = False,
       error = Some (UnsupportedFileExtension (getFileExtension (file_name file)) (allowedExtensions options)),
       sanitizedFile = None \<rparr>"
  by (simp add: validateFile_def validateFile_try_def catchResult_def)

lemma validateFile_try_renamed:
  "passesSizeTypeExtension options file \<Longrightarrow> sanitizeFileName (file_name file) \<noteq> file_name file \<Longrightarrow>
   validateFile_try options file =
     Inr \<lparr> isValid = True, error = None,
           sanitizedFile = Some (file\<lparr>file_name := sanitizeFileName (file_name file)\<rparr>) \<rparr>"
  by (simp add: validateFile_try_def passesSizeTypeExtension_def)

lemma validateFile_renamed:
  "passesSizeTypeExtension options file \<Longrightarrow> sanitizeFileName (file_name file) \<noteq> file_name file \<Longrightarrow>
   validateFile options file =
     \<lparr> isValid = True, error = None,
       sanitizedFile = Some (file\<lparr>file_name := sanitizeFileName (file_name file)\<rparr>) \<rparr>"
  by (simp add: validateFile_def validateFile_try_renamed catchResult_def)

text \<open>The results of \<open>performSecurityChecks\<close>: a throw, one of two rejections, or plain valid.\<close>

lemma performSecurityChecks_cases:
  "(\<exists>e. performSecurityChecks file = Inl e) \<or>
   performSecurityChecks file =
     Inr \<lparr> isValid = False, error = Some NotAllowedForSecurityReasons, sanitizedFile = None \<rparr> \<or>
   performSecurityChecks file =
     Inr \<lparr> isValid = False, error = Some InvalidPdfFileFormat, sanitizedFile = None \<rparr> \<or>
   performSecurityChecks file = Inr \<lparr> isValid = True, error = None, sanitizedFile = None \<rparr>"
  by (simp add: performSecurityChecks_def split: sum.splits)

lemma validateFile_try_clean_name:
  assumes "passesSizeTypeExtension options file" "sanitizeFileName (file_name file) = file_name file"
  shows "validateFile_try options file = performSecurityChecks file"
proof -
  have "validateFile_try options file =
        (case performSecurityChecks file of
           Inl e \<Rightarrow> Inl e
         | Inr securityCheck \<Rightarrow>
             if \<not> isValid securityCheck then Inr securityCheck
             else Inr \<lparr> isValid = True, error = None, sanitizedFile = None \<rparr>)"
    using assms by (simp add: validateFile_try_def passesSizeTypeExtension_def)
  then show ?thesis
    using performSecurityChecks_cases [of "file"] by auto
qed

lemma validateFile_clean_name:
  "passesSizeTypeExtension options file \<Longrightarrow> sanitizeFileName (file_name file) = file_name file \<Longrightarrow>
   validateFile options file = catchResult (performSecurityChecks file)"
  by (simp add: validateFile_def validateFile_try_clean_name)

lemma validateFile_not_passing:
  assumes "\<not> passesSizeTypeExtension options file"
  shows "\<not> isValid (validateFile options file) \<and> sanitizedFile (validateFile options file) = None \<and>
         (\<exists>e. error (validateFile options file) = Some e \<and> e \<noteq> NotAllowedForSecurityReasons \<and>
              e \<noteq> InvalidPdfFileFormat \<and> \<not> isGenericFailure e)"
proof (cases "maxSizeBytes options < int (file_size file)")
  case True
  then show ?thesis by (simp add: validateFile_too_large)
next
  case size: False
  show ?thesis
  proof (cases "file_type file \<in> set (allowedTypes options)")
    case False
    with size show ?thesis by (simp add: validateFile_bad_type)
  next
    case True
    with size assms have "toLowerCase (getFileExtension (file_name file)) \<notin> set (allowedExtensions options)"
      by (simp add: passesSizeTypeExtension_def)
    with size True show ?thesis by (simp add: validateFile_bad_extension)
  qed
qed

text \<open>Every result has one of three shapes.\<close>

lemma validateFile_shape:
  "(\<exists>e. validateFile options file = \<lparr> isValid = False, error = Some e, sanitizedFile = None \<rparr>) \<or>
   validateFile options file = \<lparr> isValid = True, error = None, sanitizedFile = None \<rparr> \<or>
   (\<exists>sanitized. validateFile options file =
      \<lparr> isValid = True, error = None, sanitizedFile = Some sanitized \<rparr>)"
proof (cases "passesSizeTypeExtension options file")
  case False
  then have "\<not> isValid (validateFile options file)" "sanitizedFile (validateFile options file) = None"
    "\<exists>e. error (validateFile options file) = Some e"
    using validateFile_not_passing [of options "file"] by auto
  then show ?thesis by (cases "validateFile options file") auto
next
  case True
  show ?thesis
  proof (cases "sanitizeFileName (file_name file) = file_name file")
    case False
    with True show ?thesis by (simp add: validateFile_renamed)
  next
    case clean: True
    with True have "validateFile options file = catchResult (performSecurityChecks file)"
      by (rule validateFile_clean_name)
    then show ?thesis
      using performSecurityChecks_cases [of "file"] by (auto simp: catchResult_def)
  qed
qed

subsection \<open>Throws and renames\<close>

lemma performSecurityChecks_Inl:
  "performSecurityChecks file = Inl e \<Longrightarrow>
   \<not> matchesSuspiciousPattern (file_name file) \<and> file_type file = ''application/pdf'' \<and>
   file_content file = ReadThrows e"
  by (auto simp: performSecurityChecks_def split: if_splits sum.splits dest: validatePdfHeader_Inl)

lemma performSecurityChecks_ReadThrows:
  "\<not> matchesSuspiciousPattern (file_name file) \<Longrightarrow> file_type file = ''application/pdf'' \<Longrightarrow>
   file_content file = ReadThrows e \<Longrightarrow> performSecurityChecks file = Inl e"
  by (simp add: performSecurityChecks_def validatePdfHeader_ReadThrows)

lemma validateFile_try_Inl:
  assumes "validateFile_try options file = Inl e"
  shows "passesSizeTypeExtension options file \<and> sanitizeFileName (file_name file) = file_name file \<and>
         performSecurityChecks file = Inl e"
proof -
  have p: "passesSizeTypeExtension options file"
    using assms
    by (auto simp: validateFile_try_def passesSizeTypeExtension_def Let_def split: if_splits)
  have c: "sanitizeFileName (file_name file) = file_name file"
  proof (rule ccontr)
    assume "sanitizeFileName (file_name file) \<noteq> file_name file"
    with p have "validateFile_try options file =
        Inr \<lparr> isValid = True, error = None,
              sanitizedFile = Some (file\<lparr>file_name := sanitizeFileName (file_name file)\<rparr>) \<rparr>"
      by (rule validateFile_try_renamed)
    with assms show False by simp
  qed
  from p c assms show ?thesis by (simp add: validateFile_try_clean_name)
qed

lemma performSecurityChecks_no_generic:
  "performSecurityChecks file = Inr result \<Longrightarrow> error result = Some e' \<Longrightarrow> \<not> isGenericFailure e'"
  using performSecurityChecks_cases [of "file"] by auto

lemma validateFile_try_no_generic:
  assumes "validateFile_try options file = Inr result" "error result = Some e'"
  shows "\<not> isGenericFailure e'"
proof (cases "passesSizeTypeExtension options file")
  case False
  from validateFile_not_passing [OF False] assms show ?thesis
    by (auto simp: validateFile_def catchResult_def)
next
  case True
  show ?thesis
  proof (cases "sanitizeFileName (file_name file) = file_name file")
    case False
    with True assms show ?thesis by (auto simp: validateFile_try_renamed)
  next
    case clean: True
    with True assms have "performSecurityChecks file = Inr result"
      by (simp add: validateFile_try_clean_name)
    then show ?thesis using assms(2) by (rule performSecurityChecks_no_generic)
  qed
qed

lemma sanitizedFile_catch_security: "sanitizedFile (catchResult (performSecurityChecks file)) = None"
  using performSecurityChecks_cases [of "file"] by (auto simp: catchResult_def)

lemma validateFile_sanitizedFile:
  assumes "sanitizedFile (validateFile options file) = Some sanitized"
  shows "passesSizeTypeExtension options file \<and> sanitizeFileName (file_name file) \<noteq> file_name file \<and>
         sanitized = file\<lparr>file_name := sanitizeFileName (file_name file)\<rparr>"
proof -
  have p: "passesSizeTypeExtension options file"
    using assms validateFile_not_passing [of options "file"] by auto
  have c: "sanitizeFileName (file_name file) \<noteq> file_name file"
  proof
    assume "sanitizeFileName (file_name file) = file_name file"
    with p have "validateFile options file = catchResult (performSecurityChecks file)"
      by (rule validateFile_clean_name)
    with assms show False by (simp add: sanitizedFile_catch_security)
  qed
  from p c assms show ?thesis by (simp add: validateFile_renamed)
qed

subsection \<open>The validator on run-time options\<close>

lemma sanitizeAndSecure_renamed:
  "sanitizeFileName (file_name file) \<noteq> file_name file \<Longrightarrow>
   sanitizeAndSecure file =
     Inr \<lparr> isValid = True, error = None,
           sanitizedFile = Some (file\<lparr>file_name := sanitizeFileName (file_name file)\<rparr>) \<rparr>"
  by (simp add: sanitizeAndSecure_def)

lemma sanitizeAndSecure_clean:
  assumes "sanitizeFileName (file_name file) = file_name file"
  shows "sanitizeAndSecure file = performSecurityChecks file"
proof -
  have "sanitizeAndSecure file =
        (case performSecurityChecks file of
           Inl e \<Rightarrow> Inl e
         | Inr securityCheck \<Rightarrow>
             if \<not> isValid securityCheck then Inr securityCheck
             else Inr \<lparr> isValid = True, error = None, sanitizedFile = None \<rparr>)"
    using assms by (simp add: sanitizeAndSecure_def)
  then show ?thesis
    using performSecurityChecks_cases [of "file"] by auto
qed

lemma validateFile_try_runtime_defined:
  "validateFile_try_runtime typeErrorMessage (definedOptions options) file = validateFile_try options file"
  by (simp add: validateFile_try_runtime_def checkTypeOnwards_def definedOptions_def
      validateFile_try_def sanitizeAndSecure_def Let_def)

lemma validateFile_runtime_defined:
  "validateFile_runtime typeErrorMessage (definedOptions options) file = validateFile options file"
  by (simp add: validateFile_runtime_def validateFile_def validateFile_try_runtime_defined)

lemma validateFile_try_runtime_too_large:
  "\<not> withinSizeLimit options file \<Longrightarrow>
   \<exists>limit. validateFile_try_runtime typeErrorMessage options file =
     Inr \<lparr> isValid = False, error = Some (SizeExceedsLimit limit), sanitizedFile = None \<rparr>"
  by (auto simp: validateFile_try_runtime_def withinSizeLimit_def split: option.splits)

lemma validateFile_try_runtime_within:
  "withinSizeLimit options file \<Longrightarrow>
   validateFile_try_runtime typeErrorMessage options file = checkTypeOnwards typeErrorMessage options file"
  by (auto simp: validateFile_try_runtime_def withinSizeLimit_def split: option.splits)

lemma checkTypeOnwards_types_undefined:
  "rt_allowedTypes options = None \<Longrightarrow>
   checkTypeOnwards typeErrorMessage options file = Inl (ErrorObject typeErrorMessage)"
  by (simp add: checkTypeOnwards_def)

lemma checkTypeOnwards_bad_type:
  "rt_allowedTypes options = Some types \<Longrightarrow> file_type file \<notin> set types \<Longrightarrow>
   checkTypeOnwards typeErrorMessage options file =
     Inr \<lparr> isValid = False, error = Some (UnsupportedFileType (file_type file) types),
           sanitizedFile = None \<rparr>"
  by (simp add: checkTypeOnwards_def)

lemma checkTypeOnwards_extensions_undefined:
  "typeAllowed options file \<Longrightarrow> rt_allowedExtensions options = None \<Longrightarrow>
   checkTypeOnwards typeErrorMessage options file = Inl (ErrorObject typeErrorMessage)"
  by (auto simp: checkTypeOnwards_def typeAllowed_def Let_def split: option.splits)

lemma checkTypeOnwards_bad_extension:
  "typeAllowed options file \<Longrightarrow> rt_allowedExtensions options = Some extensions \<Longrightarrow>
   toLowerCase (getFileExtension (file_name file)) \<notin> set extensions \<Longrightarrow>
   checkTypeOnwards typeErrorMessage options file =
     Inr \<lparr> isValid = False,
           error = Some (UnsupportedFileExtension (getFileExtension (file_name file)) extensions),
           sanitizedFile = None \<rparr>"
  by (auto simp: checkTypeOnwards_def typeAllowed_def Let_def split: option.splits)

lemma checkTypeOnwards_passing:
  "typeAllowed options file \<Longrightarrow> extensionAllowed options file \<Longrightarrow>
   checkTypeOnwards typeErrorMessage options file = sanitizeAndSecure file"
  by (auto simp: checkTypeOnwards_def typeAllowed_def extensionAllowed_def Let_def split: option.splits)

text \<open>The outcome of the \<open>try\<close> block, by the first check that decides.\<close>

lemma validateFile_try_runtime_cases:
  "(\<not> withinSizeLimit options file \<and>
      (\<exists>limit. validateFile_try_runtime m options file =
         Inr \<lparr> isValid = False, error = Some (SizeExceedsLimit limit), sanitizedFile = None \<rparr>)) \<or>
   (typesUndefinedAtCheck options file \<and>
      validateFile_try_runtime m options file = Inl (ErrorObject m)) \<or>
   (withinSizeLimit options file \<and> rt_allowedTypes options \<noteq> None \<and> \<not> typeAllowed options file \<and>
      (\<exists>t types. validateFile_try_runtime m options file =
         Inr \<lparr> isValid = False, error = Some (UnsupportedFileType t types), sanitizedFile = None \<rparr>)) \<or>
   (extensionsUndefinedAtCheck options file \<and>
      validateFile_try_runtime m options file = Inl (ErrorObject m)) \<or>
   (withinSizeLimit options file \<and> typeAllowed options file \<and> rt_allowedExtensions options \<noteq> None \<and>
      \<not> extensionAllowed options file \<and>
      (\<exists>x extensions. validateFile_try_runtime m options file =
         Inr \<lparr> isValid = False, error = Some (UnsupportedFileExtension x extensions),
               sanitizedFile = None \<rparr>)) \<or>
   (withinSizeLimit options file \<and> typeAllowed options file \<and> extensionAllowed options file \<and>
      validateFile_try_runtime m options file = sanitizeAndSecure file)"
proof (cases "withinSizeLimit options file")
  case False
  then show ?thesis using validateFile_try_runtime_too_large [of options "file" m] by blast
next
  case size: True
  note w = validateFile_try_runtime_within [OF size, of m]
  show ?thesis
  proof (cases "rt_allowedTypes options")
    case None
    with size w show ?thesis
      by (simp add: typesUndefinedAtCheck_def checkTypeOnwards_types_undefined)
  next
    case (Some types)
    show ?thesis
    proof (cases "file_type file \<in> set types")
      case False
      with Some have "\<not> typeAllowed options file" by (simp add: typeAllowed_def)
      with size w Some False show ?thesis by (simp add: checkTypeOnwards_bad_type)
    next
      case True
      with Some have t: "typeAllowed options file" by (simp add: typeAllowed_def)
      show ?thesis
      proof (cases "rt_allowedExtensions options")
        case None
        with size t w show ?thesis
          by (simp add: extensionsUndefinedAtCheck_def checkTypeOnwards_extensions_undefined)
      next
        case e: (Some extensions)
        show ?thesis
        proof (cases "toLowerCase (getFileExtension (file_name file)) \<in> set extensions")
          case False
          with e have "\<not> extensionAllowed options file" by (simp add: extensionAllowed_def)
          with size t w e False show ?thesis by (simp add: checkTypeOnwards_bad_extension)
        next
          case True
          with e have "extensionAllowed options file" by (simp add: extensionAllowed_def)
          with size t w show ?thesis by (simp add: checkTypeOnwards_passing)
        qed
      qed
    qed
  qed
qed

lemma catchResult_thrown: "catchResult (Inl (ErrorObject m)) = genericFailure m"
  by (simp add: catchResult_def genericFailure_def catchMessage_def)

lemma validateFile_runtime_types_undefined:
  "typesUndefinedAtCheck options file \<Longrightarrow> validateFile_runtime m options file = genericFailure m"
  by (simp add: typesUndefinedAtCheck_def validateFile_runtime_def validateFile_try_runtime_within
      checkTypeOnwards_types_undefined catchResult_thrown)

lemma validateFile_runtime_extensions_undefined:
  "extensionsUndefinedAtCheck options file \<Longrightarrow> validateFile_runtime m options file = genericFailure m"
  by (simp add: extensionsUndefinedAtCheck_def validateFile_runtime_def validateFile_try_runtime_within
      checkTypeOnwards_extensions_undefined catchResult_thrown)

lemma validateFile_try_runtime_header:
  "reachesHeaderCheck options file \<Longrightarrow>
   validateFile_try_runtime m options file = performSecurityChecks file"
  by (simp add: reachesHeaderCheck_def validateFile_try_runtime_within checkTypeOnwards_passing
      sanitizeAndSecure_clean)

lemma validateFile_runtime_read_throws:
  assumes "reachesHeaderCheck options file" "file_content file = ReadThrows e"
  shows "validateFile_runtime m options file = genericFailure (catchMessage e)"
proof -
  have "performSecurityChecks file = Inl e"
    using assms by (simp add: reachesHeaderCheck_def performSecurityChecks_ReadThrows)
  then show ?thesis
    using assms(1)
    by (simp add: validateFile_runtime_def validateFile_try_runtime_header catchResult_def genericFailure_def)
qed

lemma validateFile_runtime_unreadable:
  assumes "reachesHeaderCheck options file" "file_content file = Unreadable"
  shows "validateFile_runtime m options file =
           \<lparr> isValid = False, error = Some InvalidPdfFileFormat, sanitizedFile = None \<rparr>"
proof -
  have "validatePdfHeader file = Inr False" using assms(2) by (rule validatePdfHeader_Unreadable)
  then have "performSecurityChecks file =
             Inr \<lparr> isValid = False, error = Some InvalidPdfFileFormat, sanitizedFile = None \<rparr>"
    using assms(1) by (simp add: reachesHeaderCheck_def performSecurityChecks_def)
  then show ?thesis
    using assms(1) by (simp add: validateFile_runtime_def validateFile_try_runtime_header catchResult_def)
qed

lemma sanitizeAndSecure_Inl:
  assumes "sanitizeAndSecure file = Inl e"
  shows "sanitizeFileName (file_name file) = file_name file \<and>
         \<not> matchesSuspiciousPattern (file_name file) \<and> file_type file = ''application/pdf'' \<and>
         file_content file = ReadThrows e"
proof -
  have c: "sanitizeFileName (file_name file) = file_name file"
  proof (rule ccontr)
    assume "sanitizeFileName (file_name file) \<noteq> file_name file"
    then have "\<exists>r. sanitizeAndSecure file = Inr r" by (simp add: sanitizeAndSecure_renamed)
    with assms show False by auto
  qed
  then have "performSecurityChecks file = Inl e" using assms by (simp add: sanitizeAndSecure_clean)
  with c show ?thesis by (simp add: performSecurityChecks_Inl)
qed

lemma sanitizeAndSecure_no_generic:
  assumes "sanitizeAndSecure file = Inr result" "error result = Some e'"
  shows "\<not> isGenericFailure e'"
proof (cases "sanitizeFileName (file_name file) = file_name file")
  case True
  with assms(1) have "performSecurityChecks file = Inr result" by (simp add: sanitizeAndSecure_clean)
  then show ?thesis using assms(2) by (rule performSecurityChecks_no_generic)
next
  case False
  with assms show ?thesis by (auto simp: sanitizeAndSecure_renamed)
qed

text \<open>The generic failure comes from a throw, and a throw from one of three places.\<close>

lemma validateFile_runtime_generic_only_thrown:
  assumes "error (validateFile_runtime m options file) = Some e'" "isGenericFailure e'"
  shows "typesUndefinedAtCheck options file \<or> extensionsUndefinedAtCheck options file \<or>
         (reachesHeaderCheck options file \<and> (\<exists>thrown. file_content file = ReadThrows thrown))"
proof -
  let ?t = "validateFile_try_runtime m options file"
  have r: "\<And>result. ?t = Inr result \<Longrightarrow> error result = Some e'"
    using assms(1) by (simp add: validateFile_runtime_def catchResult_def)
  from validateFile_try_runtime_cases [of options "file" m]
  consider
      (size) limit where "?t = Inr \<lparr> isValid = False, error = Some (SizeExceedsLimit limit), sanitizedFile = None \<rparr>"
    | (types) "typesUndefinedAtCheck options file"
    | (type) t types where "?t = Inr \<lparr> isValid = False, error = Some (UnsupportedFileType t types), sanitizedFile = None \<rparr>"
    | (extensions) "extensionsUndefinedAtCheck options file"
    | (extension) x extensions where
        "?t = Inr \<lparr> isValid = False, error = Some (UnsupportedFileExtension x extensions), sanitizedFile = None \<rparr>"
    | (later) "withinSizeLimit options file" "typeAllowed options file" "extensionAllowed options file"
        "?t = sanitizeAndSecure file"
    by blast
  then show ?thesis
  proof cases
    case size
    from r [OF size] assms(2) show ?thesis by auto
  next
    case types
    then show ?thesis by simp
  next
    case type
    from r [OF type] assms(2) show ?thesis by auto
  next
    case extensions
    then show ?thesis by simp
  next
    case extension
    from r [OF extension] assms(2) show ?thesis by auto
  next
    case later
    show ?thesis
    proof (cases "sanitizeAndSecure file")
      case (Inl e)
      then have "sanitizeFileName (file_name file) = file_name file \<and>
         \<not> matchesSuspiciousPattern (file_name file) \<and> file_type file = ''application/pdf'' \<and>
         file_content file = ReadThrows e" by (rule sanitizeAndSecure_Inl)
      with later(1,2,3) show ?thesis by (simp add: reachesHeaderCheck_def)
    next
      case (Inr result)
      with later(4) have "?t = Inr result" by simp
      then have "error result = Some e'" by (rule r)
      with Inr have "\<not> isGenericFailure e'" by (rule sanitizeAndSecure_no_generic)
      with assms(2) show ?thesis by simp
    qed
  qed
qed

text \<open>The content is read at the header check only.\<close>

lemma performSecurityChecks_content:
  "\<not> (\<not> matchesSuspiciousPattern (file_name file) \<and> file_type file = ''application/pdf'') \<Longrightarrow>
   performSecurityChecks (file\<lparr>file_content := c\<rparr>) = performSecurityChecks file"
  by (auto simp: performSecurityChecks_def)

lemma sanitizeAndSecure_content:
  assumes "\<not> (sanitizeFileName (file_name file) = file_name file \<and>
              \<not> matchesSuspiciousPattern (file_name file) \<and> file_type file = ''application/pdf'')"
  shows "isValid (catchResult (sanitizeAndSecure (file\<lparr>file_content := c\<rparr>))) =
           isValid (catchResult (sanitizeAndSecure file)) \<and>
         error (catchResult (sanitizeAndSecure (file\<lparr>file_content := c\<rparr>))) =
           error (catchResult (sanitizeAndSecure file))"
proof (cases "sanitizeFileName (file_name file) = file_name file")
  case False
  then show ?thesis by (simp add: sanitizeAndSecure_renamed catchResult_def)
next
  case True
  with assms have "performSecurityChecks (file\<lparr>file_content := c\<rparr>) = performSecurityChecks file"
    by (intro performSecurityChecks_content) simp
  with True show ?thesis by (simp add: sanitizeAndSecure_clean)
qed

lemma validateFile_runtime_content:
  assumes "\<not> reachesHeaderCheck options file"
  shows "isValid (validateFile_runtime m options (file\<lparr>file_content := c\<rparr>)) =
           isValid (validateFile_runtime m options file) \<and>
         error (validateFile_runtime m options (file\<lparr>file_content := c\<rparr>)) =
           error (validateFile_runtime m options file)"
proof (cases "withinSizeLimit options file \<and> typeAllowed options file \<and> extensionAllowed options file")
  case True
  then have "withinSizeLimit options (file\<lparr>file_content := c\<rparr>)"
    "typeAllowed options (file\<lparr>file_content := c\<rparr>)"
    "extensionAllowed options (file\<lparr>file_content := c\<rparr>)"
    by (auto simp: withinSizeLimit_def typeAllowed_def extensionAllowed_def split: option.splits)
  then have 1: "validateFile_try_runtime m options (file\<lparr>file_content := c\<rparr>) =
                sanitizeAndSecure (file\<lparr>file_content := c\<rparr>)"
    by (simp add: validateFile_try_runtime_within checkTypeOnwards_passing)
  from True have 2: "validateFile_try_runtime m options file = sanitizeAndSecure file"
    by (simp add: validateFile_try_runtime_within checkTypeOnwards_passing)
  from True assms have "\<not> (sanitizeFileName (file_name file) = file_name file \<and>
              \<not> matchesSuspiciousPattern (file_name file) \<and> file_type file = ''application/pdf'')"
    by (simp add: reachesHeaderCheck_def)
  then show ?thesis
    unfolding validateFile_runtime_def 1 2 by (rule sanitizeAndSecure_content)
next
  case False
  then have "validateFile_try_runtime m options (file\<lparr>file_content := c\<rparr>) =
             validateFile_try_runtime m options file"
    by (auto simp: validateFile_try_runtime_def checkTypeOnwards_def withinSizeLimit_def
        typeAllowed_def extensionAllowed_def Let_def split: option.splits)
  then show ?thesis by (simp add: validateFile_runtime_def)
qed

text \<open>
  When every check of the code passes, the result is plain valid. The extension
  hypothesis is the lookup the code performs: the lower-cased extension, without its
  dot, in the allowlist.
\<close>

lemma validateFile_all_checks_pass:
  assumes "passesSizeTypeExtension options file"
    and "sanitizeFileName (file_name file) = file_name file"
    and "\<not> matchesSuspiciousPattern (file_name file)"
    and "file_type file = ''application/pdf'' \<longrightarrow>
         (\<exists>bytes. file_content file = Readable bytes \<and> take 4 bytes = pdfMagic)"
  shows "validateFile options file = \<lparr> isValid = True, error = None, sanitizedFile = None \<rparr>"
proof -
  have "performSecurityChecks file = Inr \<lparr> isValid = True, error = None, sanitizedFile = None \<rparr>"
  proof (cases "file_type file = ''application/pdf''")
    case True
    with assms(4) obtain bytes where "file_content file = Readable bytes" "take 4 bytes = pdfMagic"
      by blast
    then have "validatePdfHeader file = Inr True" by (simp add: validatePdfHeader_Readable)
    with True assms(3) show ?thesis by (simp add: performSecurityChecks_def)
  next
    case False
    with assms(3) show ?thesis by (simp add: performSecurityChecks_def)
  qed
  then show ?thesis
    using assms(1,2) by (simp add: validateFile_clean_name catchResult_def)
qed

section \<open>The claims\<close>

text \<open>
  C1. The claim: with an allowlist that contains \<open>.pdf\<close>, the extension check accepts the
  names \<open>FILE.PDF\<close> and \<open>file.pdf\<close>. The code does not: \<open>getFileExtension\<close> returns the
  part after the last dot, without the dot, so the allowlist entry \<open>.pdf\<close> is never
  met. Evaluated on the exported default validator, whose allowlist contains \<open>.pdf\<close>,
  with a four-byte PDF that passes the size and declared-type checks: both names are
  rejected by the extension check.
\<close>

theorem C1_default_validator_rejects_pdf_names:
  "validateFile fileValidator (sampleFile ''file.pdf'' ''application/pdf'' (Readable pdfMagic)) =
     \<lparr> isValid = False,
       error = Some (UnsupportedFileExtension ''pdf''
                 [''.pdf'', ''.jpg'', ''.jpeg'', ''.png'', ''.gif'', ''.webp'']),
       sanitizedFile = None \<rparr> \<and>
   validateFile fileValidator (sampleFile ''FILE.PDF'' ''application/pdf'' (Readable pdfMagic)) =
     \<lparr> isValid = False,
       error = Some (UnsupportedFileExtension ''PDF''
                 [''.pdf'', ''.jpg'', ''.jpeg'', ''.png'', ''.gif'', ''.webp'']),
       sanitizedFile = None \<rparr>"
  by code_simp

text \<open>
  C2. The claim: a candidate whose size is within the limit, whose declared type and
  extension are in the allowlists, whose name is clean and matches no denylist
  pattern, and whose first four bytes are \<open>%PDF\<close> when it is declared
  \<open>application/pdf\<close>, is valid with neither an error nor a sanitized file. The code
  rejects such a candidate whenever the allowlist writes the extension with its dot,
  as \<open>DEFAULT_OPTIONS\<close> does: check 3 looks up the extension without the dot.
  Evaluated on the exported default validator with \<open>report.pdf\<close>, four bytes \<open>%PDF\<close>,
  declared \<open>application/pdf\<close>: every condition of the claim holds and the result is
  invalid.
\<close>

theorem C2_default_validator_rejects_valid_pdf:
  "int (file_size (sampleFile ''report.pdf'' ''application/pdf'' (Readable pdfMagic)))
     \<le> maxSizeBytes fileValidator \<and>
   ''application/pdf'' \<in> set (allowedTypes fileValidator) \<and>
   ''.pdf'' \<in> set (allowedExtensions fileValidator) \<and>
   sanitizeFileName ''report.pdf'' = ''report.pdf'' \<and>
   \<not> matchesSuspiciousPattern ''report.pdf'' \<and>
   fromCharCode (take 4 pdfMagic) = ''%PDF'' \<and>
   validateFile fileValidator (sampleFile ''report.pdf'' ''application/pdf'' (Readable pdfMagic)) =
     \<lparr> isValid = False,
       error = Some (UnsupportedFileExtension ''pdf''
                 [''.pdf'', ''.jpg'', ''.jpeg'', ''.png'', ''.gif'', ''.webp'']),
       sanitizedFile = None \<rparr>"
  by code_simp

text \<open>
  C3. A candidate that passes the size, declared-type and extension checks and whose
  sanitized name differs from its name is valid at once: the result carries a copy with
  the cleaned name, the same bytes, the same size and the same declared type. The
  result is fixed before \<open>performSecurityChecks\<close> is reached: it is the same whatever the
  content \<open>c\<close> (unreadable, or throwing when read) and whether or not a denylist pattern
  matches the name.
\<close>

theorem C3_rename_returns_at_once:
  assumes "passesSizeTypeExtension options file"
    and "sanitizeFileName (file_name file) \<noteq> file_name file"
  shows "validateFile options file =
           \<lparr> isValid = True, error = None,
             sanitizedFile = Some (file\<lparr>file_name := sanitizeFileName (file_name file)\<rparr>) \<rparr> \<and>
         validateFile options (file\<lparr>file_content := c\<rparr>) =
           \<lparr> isValid = True, error = None,
             sanitizedFile =
               Some (file\<lparr>file_name := sanitizeFileName (file_name file), file_content := c\<rparr>) \<rparr>"
proof -
  have c: "passesSizeTypeExtension options (file\<lparr>file_content := c\<rparr>)"
    using assms(1) by (simp add: passesSizeTypeExtension_def)
  have "validateFile options (file\<lparr>file_content := c\<rparr>) =
           \<lparr> isValid = True, error = None,
             sanitizedFile =
               Some (file\<lparr>file_name := sanitizeFileName (file_name file), file_content := c\<rparr>) \<rparr>"
    using validateFile_renamed [OF c] assms(2) by simp
  then show ?thesis
    using validateFile_renamed [OF assms] by simp
qed

theorem C3_rename_returns_at_once_witness:
  "passesSizeTypeExtension exeValidator (sampleFile ''bad name.exe'' ''application/pdf'' Unreadable) \<and>
   sanitizeFileName ''bad name.exe'' = ''bad_name.exe'' \<and>
   matchesSuspiciousPattern ''bad name.exe'' \<and> matchesSuspiciousPattern ''bad_name.exe'' \<and>
   validateFile exeValidator (sampleFile ''bad name.exe'' ''application/pdf'' Unreadable) =
     \<lparr> isValid = True, error = None,
       sanitizedFile = Some (sampleFile ''bad_name.exe'' ''application/pdf'' Unreadable) \<rparr> \<and>
   validateFile exeValidator (sampleFile ''bad name.exe'' ''application/pdf'' (ReadThrows NonError)) =
     \<lparr> isValid = True, error = None,
       sanitizedFile = Some (sampleFile ''bad_name.exe'' ''application/pdf'' (ReadThrows NonError)) \<rparr>"
proof -
  let ?f = "sampleFile ''bad name.exe'' ''application/pdf'' Unreadable"
  have 1: "passesSizeTypeExtension exeValidator ?f" by code_simp
  have s: "sanitizeFileName ''bad name.exe'' = ''bad_name.exe''" by code_simp
  have n: "file_name ?f = ''bad name.exe''" by (simp add: sampleFile_def)
  have 2: "sanitizeFileName (file_name ?f) \<noteq> file_name ?f" by (simp only: n s) simp
  have m: "matchesSuspiciousPattern ''bad name.exe''" "matchesSuspiciousPattern ''bad_name.exe''"
    by code_simp+
  from C3_rename_returns_at_once [OF 1 2, of "ReadThrows NonError"] 1 s m
  show ?thesis by (simp add: n sampleFile_def)
qed

text \<open>
  C4. The exported default validator returns an invalid result for every file. Every
  entry of its \<open>allowedExtensions\<close> is a dot followed by dotless characters; what
  \<open>getFileExtension\<close> returns never has that form, in lower case either, so check 3
  rejects whatever passed checks 1 and 2. For a name of fewer than \<open>2 ^ 32\<close> code units
  the extracted extension holds no dot at all.
\<close>

theorem C4_default_validator_rejects_everything:
  "\<not> isValid (validateFile fileValidator file) \<and>
   list_all isDotted (allowedExtensions fileValidator) \<and>
   \<not> isDotted (toLowerCase (getFileExtension filename)) \<and>
   toLowerCase (getFileExtension filename) \<notin> set (allowedExtensions fileValidator) \<and>
   (length filename < 2 ^ 32 \<longrightarrow> CHR ''.'' \<notin> set (getFileExtension filename))"
proof -
  have "\<not> passesSizeTypeExtension DEFAULT_OPTIONS file"
    by (simp add: passesSizeTypeExtension_def default_extension_check_fails)
  then have "\<not> isValid (validateFile DEFAULT_OPTIONS file)"
    by (simp add: validateFile_not_passing)
  then show ?thesis
    by (simp add: fileValidator_eq default_extensions_dotted default_extension_check_fails
        isDotted_toLowerCase getFileExtension_not_dotted getFileExtension_dotless)
qed

theorem C4_default_validator_rejects_everything_witness:
  "length ''file.pdf'' < 2 ^ 32 \<and>
   CHR ''.'' \<notin> set (getFileExtension ''file.pdf'') \<and>
   \<not> isValid (validateFile fileValidator (sampleFile ''file.pdf'' ''application/pdf'' (Readable pdfMagic)))"
proof -
  have l: "length ''file.pdf'' < 2 ^ 32" by simp
  from C4_default_validator_rejects_everything
    [of "sampleFile ''file.pdf'' ''application/pdf'' (Readable pdfMagic)" "''file.pdf''"] l
  show ?thesis by blast
qed

text \<open>
  C5. In every result: a valid result carries no error, an invalid result carries no
  sanitized file, and the two optional fields are never both present.
\<close>

theorem C5_result_invariant:
  "(isValid (validateFile options file) \<longrightarrow> error (validateFile options file) = None) \<and>
   (\<not> isValid (validateFile options file) \<longrightarrow> sanitizedFile (validateFile options file) = None) \<and>
   \<not> (error (validateFile options file) \<noteq> None \<and> sanitizedFile (validateFile options file) \<noteq> None)"
  using validateFile_shape [of options "file"] by auto

theorem C5_result_invariant_witness:
  "isValid (validateFile exeValidator (sampleFile ''bad name.exe'' ''application/pdf'' Unreadable)) \<and>
   error (validateFile exeValidator (sampleFile ''bad name.exe'' ''application/pdf'' Unreadable)) = None \<and>
   \<not> isValid (validateFile exeValidator (sampleFile ''bad_name.exe'' ''application/pdf'' Unreadable)) \<and>
   sanitizedFile (validateFile exeValidator (sampleFile ''bad_name.exe'' ''application/pdf'' Unreadable)) = None"
proof -
  have 1: "isValid (validateFile exeValidator (sampleFile ''bad name.exe'' ''application/pdf'' Unreadable))"
    by code_simp
  have 2: "\<not> isValid (validateFile exeValidator (sampleFile ''bad_name.exe'' ''application/pdf'' Unreadable))"
    by code_simp
  from C5_result_invariant [of exeValidator "sampleFile ''bad name.exe'' ''application/pdf'' Unreadable"]
    C5_result_invariant [of exeValidator "sampleFile ''bad_name.exe'' ''application/pdf'' Unreadable"]
    1 2
  show ?thesis by blast
qed

text \<open>
  C8. A candidate declared \<open>application/pdf\<close> that passes the size, declared-type and
  extension checks, needs no rename and matches no denylist pattern, and whose first
  four bytes are not \<open>%PDF\<close> (fewer than four bytes included), is invalid with the
  message \<open>Invalid PDF file format\<close>.
\<close>

theorem C8_wrong_header_rejected:
  assumes "file_type file = ''application/pdf''"
    and "passesSizeTypeExtension options file"
    and "sanitizeFileName (file_name file) = file_name file"
    and "\<not> matchesSuspiciousPattern (file_name file)"
    and "file_content file = Readable bytes"
    and "take 4 bytes \<noteq> pdfMagic"
  shows "validateFile options file =
           \<lparr> isValid = False, error = Some InvalidPdfFileFormat, sanitizedFile = None \<rparr> \<and>
         errorText formatBytes InvalidPdfFileFormat = ''Invalid PDF file format''"
proof -
  have "validatePdfHeader file = Inr False"
    using assms(5,6) by (simp add: validatePdfHeader_Readable)
  then have "performSecurityChecks file =
             Inr \<lparr> isValid = False, error = Some InvalidPdfFileFormat, sanitizedFile = None \<rparr>"
    using assms(1,4) by (simp add: performSecurityChecks_def)
  then show ?thesis
    using assms(2,3) by (simp add: validateFile_clean_name catchResult_def)
qed

theorem C8_wrong_header_rejected_witness:
  "passesSizeTypeExtension undottedValidator
     (sampleFile ''photo.pdf'' ''application/pdf'' (Readable [0xFF, 0xD8, 0xFF, 0xE0])) \<and>
   sanitizeFileName ''photo.pdf'' = ''photo.pdf'' \<and>
   \<not> matchesSuspiciousPattern ''photo.pdf'' \<and>
   take 4 [0xFF, 0xD8, 0xFF, 0xE0] \<noteq> pdfMagic \<and>
   validateFile undottedValidator
     (sampleFile ''photo.pdf'' ''application/pdf'' (Readable [0xFF, 0xD8, 0xFF, 0xE0])) =
     \<lparr> isValid = False, error = Some InvalidPdfFileFormat, sanitizedFile = None \<rparr>"
proof -
  let ?f = "sampleFile ''photo.pdf'' ''application/pdf'' (Readable [0xFF, 0xD8, 0xFF, 0xE0])"
  have n: "file_name ?f = ''photo.pdf''" by (simp add: sampleFile_def)
  have 1: "file_type ?f = ''application/pdf''" by (simp add: sampleFile_def)
  have 2: "passesSizeTypeExtension undottedValidator ?f" by code_simp
  have 3: "sanitizeFileName (file_name ?f) = file_name ?f" by code_simp
  have 4: "\<not> matchesSuspiciousPattern (file_name ?f)" by code_simp
  have 5: "file_content ?f = Readable [0xFF, 0xD8, 0xFF, 0xE0]" by (simp add: sampleFile_def)
  have 6: "take 4 [0xFF, 0xD8, 0xFF, 0xE0] \<noteq> pdfMagic" by (simp add: pdfMagic_def)
  from C8_wrong_header_rejected [OF 1 2 3 4 5 6] 2 3 4 6 show ?thesis by (simp only: n) simp
qed

text \<open>
  C10, as stated: a name without a dot that passes the size and declared-type checks
  always fails the extension check, an empty extension being never accepted. The code
  has no test for the empty extension; it looks the extension up in the allowlist. With
  an allowlist that holds the empty string, \<open>noext\<close> passes check 3 and is valid.
\<close>

theorem C10_counterexample:
  "CHR ''.'' \<notin> set ''noext'' \<and>
   getFileExtension ''noext'' = [] \<and>
   validateFile emptyExtensionValidator (sampleFile ''noext'' ''image/png'' (Readable [])) =
     \<lparr> isValid = True, error = None, sanitizedFile = None \<rparr>"
  by code_simp

text \<open>
  C10, amended. For a validator whose \<open>allowedExtensions\<close> does not hold the empty string
  (the default one is such), a name without a dot (of fewer than \<open>2 ^ 32\<close> code units,
  as every string of an engine is) that passes the size and declared-type checks has
  the empty extension and is rejected by the extension check.
\<close>

theorem C10_no_dot_rejected:
  assumes "CHR ''.'' \<notin> set (file_name file)"
    and "length (file_name file) < 2 ^ 32"
    and "int (file_size file) \<le> maxSizeBytes options"
    and "file_type file \<in> set (allowedTypes options)"
    and "[] \<notin> set (allowedExtensions options)"
  shows "getFileExtension (file_name file) = [] \<and>
         validateFile options file =
           \<lparr> isValid = False, error = Some (UnsupportedFileExtension [] (allowedExtensions options)),
             sanitizedFile = None \<rparr>"
proof -
  have e: "getFileExtension (file_name file) = []"
    using assms(1,2) by (rule getFileExtension_no_dot)
  then have "toLowerCase (getFileExtension (file_name file)) \<notin> set (allowedExtensions options)"
    using assms(5) by (simp add: toLowerCase_def)
  with assms(3,4) e show ?thesis by (simp add: validateFile_bad_extension)
qed

theorem C10_no_dot_rejected_witness:
  "CHR ''.'' \<notin> set ''noext'' \<and> length ''noext'' < 2 ^ 32 \<and>
   [] \<notin> set (allowedExtensions fileValidator) \<and>
   getFileExtension ''noext'' = [] \<and>
   validateFile fileValidator (sampleFile ''noext'' ''image/png'' (Readable [])) =
     \<lparr> isValid = False,
       error = Some (UnsupportedFileExtension [] [''.pdf'', ''.jpg'', ''.jpeg'', ''.png'', ''.gif'', ''.webp'']),
       sanitizedFile = None \<rparr>"
proof -
  let ?f = "sampleFile ''noext'' ''image/png'' (Readable [])"
  have n: "file_name ?f = ''noext''" by (simp add: sampleFile_def)
  have 1: "CHR ''.'' \<notin> set (file_name ?f)" by (simp add: sampleFile_def)
  have 2: "length (file_name ?f) < 2 ^ 32" by (simp add: sampleFile_def)
  have 3: "int (file_size ?f) \<le> maxSizeBytes fileValidator"
    by (simp add: sampleFile_def fileValidator_eq DEFAULT_OPTIONS_def)
  have 4: "file_type ?f \<in> set (allowedTypes fileValidator)"
    by (simp add: sampleFile_def fileValidator_eq DEFAULT_OPTIONS_def)
  have 5: "[] \<notin> set (allowedExtensions fileValidator)"
    by (simp add: fileValidator_eq DEFAULT_OPTIONS_def)
  have a: "allowedExtensions fileValidator = [''.pdf'', ''.jpg'', ''.jpeg'', ''.png'', ''.gif'', ''.webp'']"
    by (simp add: fileValidator_eq DEFAULT_OPTIONS_def)
  from C10_no_dot_rejected [OF 1 2 3 4 5] 1 2 5 show ?thesis by (simp only: n a) simp
qed

text \<open>
  C7, as stated: \<open>invoice.pdf.exe\<close> is rejected by the security denylist whatever the
  declared type. The checks run in order and the denylist is the fifth: with an
  allowlist of document and image extensions the name is rejected by the extension
  check, and with a declared type outside the allowlist by the declared-type check.
\<close>

theorem C7_counterexample:
  "validateFile undottedValidator (sampleFile ''invoice.pdf.exe'' ''application/pdf'' (Readable pdfMagic)) =
     \<lparr> isValid = False,
       error = Some (UnsupportedFileExtension ''exe'' [''pdf'', ''jpg'', ''jpeg'', ''png'', ''gif'', ''webp'']),
       sanitizedFile = None \<rparr> \<and>
   validateFile exeValidator
       (sampleFile ''invoice.pdf.exe'' ''application/x-msdownload'' (Readable pdfMagic)) =
     \<lparr> isValid = False,
       error = Some (UnsupportedFileType ''application/x-msdownload''
                 [''application/pdf'', ''image/jpeg'', ''image/png'', ''image/gif'', ''image/webp'']),
       sanitizedFile = None \<rparr>"
  by code_simp

text \<open>
  C7, amended. A candidate named \<open>invoice.pdf.exe\<close> is invalid for every validator,
  declared type and content. The rejection comes from the first check that fails, in
  the order size, declared type, extension: a file over the limit gets the size
  message whatever else holds; within the limit, a declared type outside the allowlist
  gets the declared-type message; with both passed, an allowlist without \<open>exe\<close> gets the
  extension message. When these three pass, the rejection comes from the security
  denylist, which rejects the name by itself whatever the declared type.
\<close>

theorem C7_invoice_pdf_exe_rejected:
  assumes "file_name file = ''invoice.pdf.exe''"
  shows "\<not> isValid (validateFile options file) \<and>
         (maxSizeBytes options < int (file_size file) \<longrightarrow>
            validateFile options file =
              \<lparr> isValid = False, error = Some (SizeExceedsLimit (maxSizeBytes options)),
                sanitizedFile = None \<rparr>) \<and>
         (int (file_size file) \<le> maxSizeBytes options \<and> file_type file \<notin> set (allowedTypes options) \<longrightarrow>
            validateFile options file =
              \<lparr> isValid = False,
                error = Some (UnsupportedFileType (file_type file) (allowedTypes options)),
                sanitizedFile = None \<rparr>) \<and>
         (int (file_size file) \<le> maxSizeBytes options \<and> file_type file \<in> set (allowedTypes options) \<and>
          ''exe'' \<notin> set (allowedExtensions options) \<longrightarrow>
            validateFile options file =
              \<lparr> isValid = False,
                error = Some (UnsupportedFileExtension ''exe'' (allowedExtensions options)),
                sanitizedFile = None \<rparr>) \<and>
         (int (file_size file) \<le> maxSizeBytes options \<and> file_type file \<in> set (allowedTypes options) \<and>
          ''exe'' \<in> set (allowedExtensions options) \<longrightarrow>
            validateFile options file =
              \<lparr> isValid = False, error = Some NotAllowedForSecurityReasons, sanitizedFile = None \<rparr>) \<and>
         performSecurityChecks file =
           Inr \<lparr> isValid = False, error = Some NotAllowedForSecurityReasons, sanitizedFile = None \<rparr>"
proof -
  have x: "getFileExtension ''invoice.pdf.exe'' = ''exe''" by code_simp
  have l: "toLowerCase ''exe'' = ''exe''" by code_simp
  have m: "matchesSuspiciousPattern ''invoice.pdf.exe''" by code_simp
  have s: "sanitizeFileName ''invoice.pdf.exe'' = ''invoice.pdf.exe''" by code_simp
  have p: "performSecurityChecks file =
           Inr \<lparr> isValid = False, error = Some NotAllowedForSecurityReasons, sanitizedFile = None \<rparr>"
    using m assms by (simp add: performSecurityChecks_def)
  have c: "sanitizeFileName (file_name file) = file_name file"
    using s assms by simp
  have e: "toLowerCase (getFileExtension (file_name file)) = ''exe''"
    by (simp only: assms x l)
  have 1: "maxSizeBytes options < int (file_size file) \<longrightarrow>
            validateFile options file =
              \<lparr> isValid = False, error = Some (SizeExceedsLimit (maxSizeBytes options)),
                sanitizedFile = None \<rparr>"
    by (simp add: validateFile_too_large)
  have 2: "int (file_size file) \<le> maxSizeBytes options \<and> file_type file \<notin> set (allowedTypes options) \<longrightarrow>
            validateFile options file =
              \<lparr> isValid = False,
                error = Some (UnsupportedFileType (file_type file) (allowedTypes options)),
                sanitizedFile = None \<rparr>"
    by (simp add: validateFile_bad_type)
  have 3: "int (file_size file) \<le> maxSizeBytes options \<and> file_type file \<in> set (allowedTypes options) \<and>
          ''exe'' \<notin> set (allowedExtensions options) \<longrightarrow>
            validateFile options file =
              \<lparr> isValid = False,
                error = Some (UnsupportedFileExtension ''exe'' (allowedExtensions options)),
                sanitizedFile = None \<rparr>"
  proof
    assume a: "int (file_size file) \<le> maxSizeBytes options \<and> file_type file \<in> set (allowedTypes options) \<and>
          ''exe'' \<notin> set (allowedExtensions options)"
    then have "toLowerCase (getFileExtension (file_name file)) \<notin> set (allowedExtensions options)"
      by (simp only: e) simp
    with a have "validateFile options file =
       \<lparr> isValid = False,
         error = Some (UnsupportedFileExtension (getFileExtension (file_name file)) (allowedExtensions options)),
         sanitizedFile = None \<rparr>"
      by (simp add: validateFile_bad_extension)
    then show "validateFile options file =
              \<lparr> isValid = False,
                error = Some (UnsupportedFileExtension ''exe'' (allowedExtensions options)),
                sanitizedFile = None \<rparr>"
      by (simp only: assms x)
  qed
  have 4: "int (file_size file) \<le> maxSizeBytes options \<and> file_type file \<in> set (allowedTypes options) \<and>
          ''exe'' \<in> set (allowedExtensions options) \<longrightarrow>
            validateFile options file =
              \<lparr> isValid = False, error = Some NotAllowedForSecurityReasons, sanitizedFile = None \<rparr>"
  proof
    assume "int (file_size file) \<le> maxSizeBytes options \<and> file_type file \<in> set (allowedTypes options) \<and>
          ''exe'' \<in> set (allowedExtensions options)"
    then have "passesSizeTypeExtension options file"
      unfolding passesSizeTypeExtension_def e by simp
    then have "validateFile options file = catchResult (performSecurityChecks file)"
      using c by (rule validateFile_clean_name)
    then show "validateFile options file =
              \<lparr> isValid = False, error = Some NotAllowedForSecurityReasons, sanitizedFile = None \<rparr>"
      by (simp add: p catchResult_def)
  qed
  have 0: "\<not> isValid (validateFile options file)"
  proof (cases "passesSizeTypeExtension options file")
    case True
    then have "validateFile options file = catchResult (performSecurityChecks file)"
      using c by (rule validateFile_clean_name)
    then show ?thesis by (simp add: p catchResult_def)
  next
    case False
    then show ?thesis by (simp add: validateFile_not_passing)
  qed
  show ?thesis by (intro conjI) (rule 0 1 2 3 4 p)+
qed

theorem C7_invoice_pdf_exe_rejected_witness:
  "maxSizeBytes tinyValidator
     < int (file_size (sampleFile ''invoice.pdf.exe'' ''application/pdf'' (Readable pdfMagic))) \<and>
   validateFile tinyValidator (sampleFile ''invoice.pdf.exe'' ''application/pdf'' (Readable pdfMagic)) =
     \<lparr> isValid = False, error = Some (SizeExceedsLimit 3), sanitizedFile = None \<rparr> \<and>
   ''application/x-msdownload'' \<notin> set (allowedTypes exeValidator) \<and>
   validateFile exeValidator
       (sampleFile ''invoice.pdf.exe'' ''application/x-msdownload'' (Readable pdfMagic)) =
     \<lparr> isValid = False,
       error = Some (UnsupportedFileType ''application/x-msdownload''
                 [''application/pdf'', ''image/jpeg'', ''image/png'', ''image/gif'', ''image/webp'']),
       sanitizedFile = None \<rparr> \<and>
   ''exe'' \<notin> set (allowedExtensions undottedValidator) \<and>
   validateFile undottedValidator (sampleFile ''invoice.pdf.exe'' ''application/pdf'' (Readable pdfMagic)) =
     \<lparr> isValid = False,
       error = Some (UnsupportedFileExtension ''exe'' [''pdf'', ''jpg'', ''jpeg'', ''png'', ''gif'', ''webp'']),
       sanitizedFile = None \<rparr> \<and>
   ''exe'' \<in> set (allowedExtensions exeValidator) \<and>
   validateFile exeValidator (sampleFile ''invoice.pdf.exe'' ''application/pdf'' (Readable pdfMagic)) =
     \<lparr> isValid = False, error = Some NotAllowedForSecurityReasons, sanitizedFile = None \<rparr>"
proof -
  let ?f = "sampleFile ''invoice.pdf.exe'' ''application/pdf'' (Readable pdfMagic)"
  let ?g = "sampleFile ''invoice.pdf.exe'' ''application/x-msdownload'' (Readable pdfMagic)"
  have nf: "file_name ?f = ''invoice.pdf.exe''" by (simp add: sampleFile_def)
  have ng: "file_name ?g = ''invoice.pdf.exe''" by (simp add: sampleFile_def)
  have tf: "file_type ?f = ''application/pdf''" by (simp add: sampleFile_def)
  have tg: "file_type ?g = ''application/x-msdownload''" by (simp add: sampleFile_def)
  have mt: "maxSizeBytes tinyValidator = 3" by code_simp
  have at: "allowedTypes exeValidator =
            [''application/pdf'', ''image/jpeg'', ''image/png'', ''image/gif'', ''image/webp'']"
    by code_simp
  have au: "allowedExtensions undottedValidator = [''pdf'', ''jpg'', ''jpeg'', ''png'', ''gif'', ''webp'']"
    by code_simp
  have 1: "maxSizeBytes tinyValidator < int (file_size ?f)" by code_simp
  have 2: "int (file_size ?g) \<le> maxSizeBytes exeValidator \<and> file_type ?g \<notin> set (allowedTypes exeValidator)"
    by code_simp
  have 3: "int (file_size ?f) \<le> maxSizeBytes undottedValidator \<and>
           file_type ?f \<in> set (allowedTypes undottedValidator) \<and>
           ''exe'' \<notin> set (allowedExtensions undottedValidator)"
    by code_simp
  have 4: "int (file_size ?f) \<le> maxSizeBytes exeValidator \<and>
           file_type ?f \<in> set (allowedTypes exeValidator) \<and>
           ''exe'' \<in> set (allowedExtensions exeValidator)"
    by code_simp
  have r1: "validateFile tinyValidator ?f =
     \<lparr> isValid = False, error = Some (SizeExceedsLimit (maxSizeBytes tinyValidator)), sanitizedFile = None \<rparr>"
    using C7_invoice_pdf_exe_rejected [OF nf, of tinyValidator] 1 by blast
  have r2: "validateFile exeValidator ?g =
     \<lparr> isValid = False, error = Some (UnsupportedFileType (file_type ?g) (allowedTypes exeValidator)),
       sanitizedFile = None \<rparr>"
    using C7_invoice_pdf_exe_rejected [OF ng, of exeValidator] 2 by blast
  have r3: "validateFile undottedValidator ?f =
     \<lparr> isValid = False,
       error = Some (UnsupportedFileExtension ''exe'' (allowedExtensions undottedValidator)),
       sanitizedFile = None \<rparr>"
    using C7_invoice_pdf_exe_rejected [OF nf, of undottedValidator] 3 by blast
  have r4: "validateFile exeValidator ?f =
     \<lparr> isValid = False, error = Some NotAllowedForSecurityReasons, sanitizedFile = None \<rparr>"
    using C7_invoice_pdf_exe_rejected [OF nf, of exeValidator] 4 by blast
  have h2: "''application/x-msdownload'' \<notin> set (allowedTypes exeValidator)" by code_simp
  have h3: "''exe'' \<notin> set (allowedExtensions undottedValidator)" by code_simp
  have h4: "''exe'' \<in> set (allowedExtensions exeValidator)" by code_simp
  note r1' = r1 [unfolded mt]
  note r2' = r2 [unfolded tg at]
  note r3' = r3 [unfolded au]
  show ?thesis by (intro conjI) (rule 1 r1' h2 r2' h3 r3' h4 r4)+
qed

text \<open>
  C6, as stated: sanitization is idempotent on every filename, so that validating a
  returned sanitized file triggers no further rename and goes on to the security
  checks. Truncation to 255 code units is the last step, after the trailing underscores
  were removed, and it can leave an underscore at the end, which a second pass removes.
  For the 260-unit name \<open>longName\<close> the second pass differs from the first, and the
  sanitized file returned for it has lost its extension: validating it ends at check 3.
  For \<open>longUnderscoreName\<close>, under an allowlist that accepts the truncated extension,
  validating the sanitized file renames it once more.
\<close>

theorem C6_counterexample:
  "sanitizeFileName (sanitizeFileName longName) \<noteq> sanitizeFileName longName \<and>
   sanitizeFileName longName = replicate 254 (CHR ''a'') @ ''_'' \<and>
   sanitizeFileName (sanitizeFileName longName) = replicate 254 (CHR ''a'') \<and>
   validateFile undottedValidator (sampleFile longName ''application/pdf'' (Readable pdfMagic)) =
     \<lparr> isValid = True, error = None,
       sanitizedFile = Some (sampleFile (replicate 254 (CHR ''a'') @ ''_'') ''application/pdf'' (Readable pdfMagic)) \<rparr> \<and>
   validateFile undottedValidator
       (sampleFile (replicate 254 (CHR ''a'') @ ''_'') ''application/pdf'' (Readable pdfMagic)) =
     \<lparr> isValid = False,
       error = Some (UnsupportedFileExtension [] [''pdf'', ''jpg'', ''jpeg'', ''png'', ''gif'', ''webp'']),
       sanitizedFile = None \<rparr> \<and>
   validateFile underscoreValidator (sampleFile longUnderscoreName ''application/pdf'' (Readable pdfMagic)) =
     \<lparr> isValid = True, error = None,
       sanitizedFile = Some (sampleFile (replicate 252 (CHR ''a'') @ ''.p_'') ''application/pdf'' (Readable pdfMagic)) \<rparr> \<and>
   validateFile underscoreValidator
       (sampleFile (replicate 252 (CHR ''a'') @ ''.p_'') ''application/pdf'' (Readable pdfMagic)) =
     \<lparr> isValid = True, error = None,
       sanitizedFile = Some (sampleFile (replicate 252 (CHR ''a'') @ ''.p'') ''application/pdf'' (Readable pdfMagic)) \<rparr>"
  by code_simp

text \<open>
  C6, amended. Sanitization is idempotent on every filename whose sanitized form does not
  end with an underscore, which holds for every filename of at most 255 code units.
  For every candidate whose validation returned a sanitized file with such a name, the
  sanitized file has the bytes, size and declared type of the candidate, validating it
  triggers no further rename, and when its name passes the extension check the result
  is the outcome of the security-denylist and PDF-header checks on it.
\<close>

theorem C6_sanitize_idempotent_without_trailing_underscore:
  "(\<not> hasTrailingUnderscore (sanitizeFileName filename) \<longrightarrow>
      sanitizeFileName (sanitizeFileName filename) = sanitizeFileName filename) \<and>
   (length filename \<le> 255 \<longrightarrow> \<not> hasTrailingUnderscore (sanitizeFileName filename)) \<and>
   (sanitizedFile (validateFile options file) = Some sanitized \<and>
    \<not> hasTrailingUnderscore (file_name sanitized) \<longrightarrow>
      file_name sanitized = sanitizeFileName (file_name file) \<and>
      file_type sanitized = file_type file \<and>
      file_size sanitized = file_size file \<and>
      file_content sanitized = file_content file \<and>
      sanitizeFileName (file_name sanitized) = file_name sanitized \<and>
      sanitizedFile (validateFile options sanitized) = None \<and>
      (toLowerCase (getFileExtension (file_name sanitized)) \<in> set (allowedExtensions options) \<longrightarrow>
         validateFile options sanitized = catchResult (performSecurityChecks sanitized)))"
proof (intro conjI impI)
  assume "\<not> hasTrailingUnderscore (sanitizeFileName filename)"
  then show "sanitizeFileName (sanitizeFileName filename) = sanitizeFileName filename"
    by (simp add: sanitizeFileName_idem_iff)
next
  assume "length filename \<le> 255"
  then show "\<not> hasTrailingUnderscore (sanitizeFileName filename)"
    by (rule sanitizeFileName_short)
next
  assume a: "sanitizedFile (validateFile options file) = Some sanitized \<and>
             \<not> hasTrailingUnderscore (file_name sanitized)"
  then have p: "passesSizeTypeExtension options file"
    and s: "sanitized = file\<lparr>file_name := sanitizeFileName (file_name file)\<rparr>"
    using validateFile_sanitizedFile [of options "file" sanitized] by simp_all
  from s show n: "file_name sanitized = sanitizeFileName (file_name file)" by simp
  from s show "file_type sanitized = file_type file" by simp
  from s show "file_size sanitized = file_size file" by simp
  from s show "file_content sanitized = file_content file" by simp
  from a n show c: "sanitizeFileName (file_name sanitized) = file_name sanitized"
    by (simp add: sanitizeFileName_idem_iff)
  show "sanitizedFile (validateFile options sanitized) = None"
  proof (cases "passesSizeTypeExtension options sanitized")
    case True
    then show ?thesis using c by (simp add: validateFile_clean_name sanitizedFile_catch_security)
  next
    case False
    then show ?thesis by (simp add: validateFile_not_passing)
  qed
  assume "toLowerCase (getFileExtension (file_name sanitized)) \<in> set (allowedExtensions options)"
  with p s have "passesSizeTypeExtension options sanitized"
    by (simp add: passesSizeTypeExtension_def)
  then show "validateFile options sanitized = catchResult (performSecurityChecks sanitized)"
    using c by (rule validateFile_clean_name)
qed

theorem C6_sanitize_idempotent_without_trailing_underscore_witness:
  "length ''My File <v2>.pdf'' \<le> 255 \<and>
   sanitizeFileName ''My File <v2>.pdf'' = ''My_File_v2_.pdf'' \<and>
   \<not> hasTrailingUnderscore ''My_File_v2_.pdf'' \<and>
   sanitizeFileName ''My_File_v2_.pdf'' = ''My_File_v2_.pdf'' \<and>
   sanitizedFile (validateFile undottedValidator
       (sampleFile ''My File <v2>.pdf'' ''application/pdf'' (Readable pdfMagic))) =
     Some (sampleFile ''My_File_v2_.pdf'' ''application/pdf'' (Readable pdfMagic)) \<and>
   toLowerCase (getFileExtension ''My_File_v2_.pdf'') \<in> set (allowedExtensions undottedValidator) \<and>
   validateFile undottedValidator (sampleFile ''My_File_v2_.pdf'' ''application/pdf'' (Readable pdfMagic)) =
     catchResult (performSecurityChecks (sampleFile ''My_File_v2_.pdf'' ''application/pdf'' (Readable pdfMagic))) \<and>
   catchResult (performSecurityChecks (sampleFile ''My_File_v2_.pdf'' ''application/pdf'' (Readable pdfMagic))) =
     \<lparr> isValid = True, error = None, sanitizedFile = None \<rparr>"
proof -
  let ?f = "sampleFile ''My File <v2>.pdf'' ''application/pdf'' (Readable pdfMagic)"
  let ?g = "sampleFile ''My_File_v2_.pdf'' ''application/pdf'' (Readable pdfMagic)"
  have l: "length ''My File <v2>.pdf'' \<le> 255" by simp
  have s: "sanitizeFileName ''My File <v2>.pdf'' = ''My_File_v2_.pdf''" by code_simp
  have t: "\<not> hasTrailingUnderscore ''My_File_v2_.pdf''" by code_simp
  have r: "sanitizedFile (validateFile undottedValidator ?f) = Some ?g" by code_simp
  have n: "file_name ?g = ''My_File_v2_.pdf''" by (simp add: sampleFile_def)
  have e: "toLowerCase (getFileExtension ''My_File_v2_.pdf'') \<in> set (allowedExtensions undottedValidator)"
    by code_simp
  have v: "catchResult (performSecurityChecks ?g) = \<lparr> isValid = True, error = None, sanitizedFile = None \<rparr>"
    by code_simp
  have i: "sanitizeFileName ''My_File_v2_.pdf'' = ''My_File_v2_.pdf''" by code_simp
  have h: "\<not> hasTrailingUnderscore (file_name ?g)" unfolding n by (rule t)
  have e': "toLowerCase (getFileExtension (file_name ?g)) \<in> set (allowedExtensions undottedValidator)"
    unfolding n by (rule e)
  from C6_sanitize_idempotent_without_trailing_underscore
    [of "''My File <v2>.pdf''" undottedValidator ?f ?g] r h e'
  have "validateFile undottedValidator ?g = catchResult (performSecurityChecks ?g)"
    by blast
  with l s t i r e v show ?thesis by blast
qed

text \<open>
  C9, as stated: for every candidate, also one whose content cannot be read, an
  internal fault is surfaced as an invalid result with the generic message of the
  \<open>catch\<close> clause. Content that cannot be read is not a fault for the code: the
  \<open>error\<close> event of the reader resolves the header check to \<open>false\<close>, so a declared PDF
  is rejected with \<open>Invalid PDF file format\<close>, and a file declared with another type is
  never read and is valid.
\<close>

theorem C9_counterexample:
  "file_content (sampleFile ''file.pdf'' ''application/pdf'' Unreadable) = Unreadable \<and>
   validateFile undottedValidator (sampleFile ''file.pdf'' ''application/pdf'' Unreadable) =
     \<lparr> isValid = False, error = Some InvalidPdfFileFormat, sanitizedFile = None \<rparr> \<and>
   \<not> isGenericFailure InvalidPdfFileFormat \<and>
   validateFile undottedValidator (sampleFile ''image.png'' ''image/png'' Unreadable) =
     \<lparr> isValid = True, error = None, sanitizedFile = None \<rparr>"
  by code_simp

text \<open>
  C9, amended. \<open>validateFile\<close> never propagates an exception: on every candidate and on
  every options, also options holding an undefined allowlist, it returns a result.
  Every fault thrown inside the \<open>try\<close> block is returned as an invalid result with the
  message \<open>File validation failed: \<close> followed by the message of the fault (or
  \<open>Unknown error\<close>), and a result carries that message only then. The faults are:
  \<open>allowedTypes\<close> undefined when check 2 is reached, \<open>allowedExtensions\<close> undefined when
  check 3 is reached (the \<open>TypeError\<close> of calling \<open>includes\<close> on \<open>undefined\<close>), and a
  throw while the content of a declared PDF is read at the header check. Content that
  cannot be read is not such a fault: a declared PDF that reaches the header check and
  whose content cannot be read is rejected with \<open>Invalid PDF file format\<close>, and a
  candidate that does not reach the header check, one of another declared type
  included, is never read: its verdict and its message are the same whatever its
  content. On options whose fields are all defined this is \<open>validateFile\<close> as above.
\<close>

theorem C9_faults_are_caught:
  "(typesUndefinedAtCheck options file \<or> extensionsUndefinedAtCheck options file \<longrightarrow>
      validateFile_runtime m options file = genericFailure m) \<and>
   (reachesHeaderCheck options file \<and> file_content file = ReadThrows e \<longrightarrow>
      validateFile_runtime m options file = genericFailure (catchMessage e)) \<and>
   (error (validateFile_runtime m options file) = Some e' \<and> isGenericFailure e' \<longrightarrow>
      typesUndefinedAtCheck options file \<or> extensionsUndefinedAtCheck options file \<or>
      (reachesHeaderCheck options file \<and> (\<exists>thrown. file_content file = ReadThrows thrown))) \<and>
   (reachesHeaderCheck options file \<and> file_content file = Unreadable \<longrightarrow>
      validateFile_runtime m options file =
        \<lparr> isValid = False, error = Some InvalidPdfFileFormat, sanitizedFile = None \<rparr>) \<and>
   (\<not> reachesHeaderCheck options file \<longrightarrow>
      isValid (validateFile_runtime m options (file\<lparr>file_content := c\<rparr>)) =
        isValid (validateFile_runtime m options file) \<and>
      error (validateFile_runtime m options (file\<lparr>file_content := c\<rparr>)) =
        error (validateFile_runtime m options file)) \<and>
   (file_type file \<noteq> ''application/pdf'' \<longrightarrow> \<not> reachesHeaderCheck options file) \<and>
   validateFile_runtime m (definedOptions defined) file = validateFile defined file \<and>
   genericFailure x =
     \<lparr> isValid = False, error = Some (FileValidationFailed x), sanitizedFile = None \<rparr> \<and>
   errorText formatBytes (FileValidationFailed x) = ''File validation failed: '' @ x \<and>
   errorText formatBytes InvalidPdfFileFormat = ''Invalid PDF file format'' \<and>
   catchMessage (ErrorObject x) = x \<and>
   catchMessage NonError = ''Unknown error''"
proof -
  have 1: "typesUndefinedAtCheck options file \<or> extensionsUndefinedAtCheck options file \<longrightarrow>
      validateFile_runtime m options file = genericFailure m"
    using validateFile_runtime_types_undefined [of options "file" m]
      validateFile_runtime_extensions_undefined [of options "file" m] by blast
  have 2: "reachesHeaderCheck options file \<and> file_content file = ReadThrows e \<longrightarrow>
      validateFile_runtime m options file = genericFailure (catchMessage e)"
    using validateFile_runtime_read_throws [of options "file" e m] by blast
  have 3: "error (validateFile_runtime m options file) = Some e' \<and> isGenericFailure e' \<longrightarrow>
      typesUndefinedAtCheck options file \<or> extensionsUndefinedAtCheck options file \<or>
      (reachesHeaderCheck options file \<and> (\<exists>thrown. file_content file = ReadThrows thrown))"
    using validateFile_runtime_generic_only_thrown [of m options "file" e'] by blast
  have 4: "reachesHeaderCheck options file \<and> file_content file = Unreadable \<longrightarrow>
      validateFile_runtime m options file =
        \<lparr> isValid = False, error = Some InvalidPdfFileFormat, sanitizedFile = None \<rparr>"
    using validateFile_runtime_unreadable [of options "file" m] by blast
  have 5: "\<not> reachesHeaderCheck options file \<longrightarrow>
      isValid (validateFile_runtime m options (file\<lparr>file_content := c\<rparr>)) =
        isValid (validateFile_runtime m options file) \<and>
      error (validateFile_runtime m options (file\<lparr>file_content := c\<rparr>)) =
        error (validateFile_runtime m options file)"
    using validateFile_runtime_content [of options "file" m c] by blast
  have 6: "file_type file \<noteq> ''application/pdf'' \<longrightarrow> \<not> reachesHeaderCheck options file"
    by (simp add: reachesHeaderCheck_def)
  have 7: "validateFile_runtime m (definedOptions defined) file = validateFile defined file"
    by (rule validateFile_runtime_defined)
  have 8: "genericFailure x =
     \<lparr> isValid = False, error = Some (FileValidationFailed x), sanitizedFile = None \<rparr>"
    by (rule genericFailure_def)
  have 9: "errorText formatBytes (FileValidationFailed x) = ''File validation failed: '' @ x"
    by (rule errorText.simps)
  have 10: "errorText formatBytes InvalidPdfFileFormat = ''Invalid PDF file format''"
    by (rule errorText.simps)
  have 11: "catchMessage (ErrorObject x) = x" by (simp add: catchMessage_def)
  have 12: "catchMessage NonError = ''Unknown error''" by (simp add: catchMessage_def)
  show ?thesis by (intro conjI) (rule 1 2 3 4 5 6 7 8 9 10 11 12)+
qed

theorem C9_faults_are_caught_witness:
  "typesUndefinedAtCheck undefinedTypesValidator
     (sampleFile ''file.pdf'' ''application/pdf'' (Readable pdfMagic)) \<and>
   validateFile_runtime ''includes of undefined'' undefinedTypesValidator
     (sampleFile ''file.pdf'' ''application/pdf'' (Readable pdfMagic)) =
     genericFailure ''includes of undefined'' \<and>
   extensionsUndefinedAtCheck undefinedExtensionsValidator
     (sampleFile ''file.pdf'' ''application/pdf'' (Readable pdfMagic)) \<and>
   validateFile_runtime ''includes of undefined'' undefinedExtensionsValidator
     (sampleFile ''file.pdf'' ''application/pdf'' (Readable pdfMagic)) =
     genericFailure ''includes of undefined'' \<and>
   reachesHeaderCheck (definedOptions undottedValidator)
     (sampleFile ''file.pdf'' ''application/pdf'' (ReadThrows (ErrorObject ''disk gone''))) \<and>
   validateFile undottedValidator
     (sampleFile ''file.pdf'' ''application/pdf'' (ReadThrows (ErrorObject ''disk gone''))) =
     genericFailure ''disk gone'' \<and>
   reachesHeaderCheck (definedOptions undottedValidator)
     (sampleFile ''file.pdf'' ''application/pdf'' Unreadable) \<and>
   validateFile undottedValidator (sampleFile ''file.pdf'' ''application/pdf'' Unreadable) =
     \<lparr> isValid = False, error = Some InvalidPdfFileFormat, sanitizedFile = None \<rparr> \<and>
   \<not> reachesHeaderCheck (definedOptions undottedValidator)
     (sampleFile ''image.png'' ''image/png'' (Readable [])) \<and>
   isValid (validateFile undottedValidator (sampleFile ''image.png'' ''image/png'' Unreadable)) =
     isValid (validateFile undottedValidator (sampleFile ''image.png'' ''image/png'' (Readable [])))"
proof -
  let ?m = "''includes of undefined''"
  let ?p = "sampleFile ''file.pdf'' ''application/pdf'' (Readable pdfMagic)"
  let ?t = "sampleFile ''file.pdf'' ''application/pdf'' (ReadThrows (ErrorObject ''disk gone''))"
  let ?u = "sampleFile ''file.pdf'' ''application/pdf'' Unreadable"
  let ?i = "sampleFile ''image.png'' ''image/png'' (Readable [])"
  let ?d = "definedOptions undottedValidator"
  have h1: "typesUndefinedAtCheck undefinedTypesValidator ?p" by code_simp
  have h2: "extensionsUndefinedAtCheck undefinedExtensionsValidator ?p" by code_simp
  have h3: "reachesHeaderCheck ?d ?t" by code_simp
  have c3: "file_content ?t = ReadThrows (ErrorObject ''disk gone'')" by (simp add: sampleFile_def)
  have h4: "reachesHeaderCheck ?d ?u" by code_simp
  have c4: "file_content ?u = Unreadable" by (simp add: sampleFile_def)
  have h5: "\<not> reachesHeaderCheck ?d ?i" by code_simp
  have u5: "?i\<lparr>file_content := Unreadable\<rparr> = sampleFile ''image.png'' ''image/png'' Unreadable"
    by (simp add: sampleFile_def)
  have k: "catchMessage (ErrorObject ''disk gone'') = ''disk gone''" by (simp add: catchMessage_def)
  have r1: "validateFile_runtime ?m undefinedTypesValidator ?p = genericFailure ?m"
    using C9_faults_are_caught [of undefinedTypesValidator ?p ?m] h1 by blast
  have r2: "validateFile_runtime ?m undefinedExtensionsValidator ?p = genericFailure ?m"
    using C9_faults_are_caught [of undefinedExtensionsValidator ?p ?m] h2 by blast
  have d: "\<And>f. validateFile_runtime ?m ?d f = validateFile undottedValidator f"
    using C9_faults_are_caught [of ?d _ ?m _ _ _ undottedValidator] by blast
  have "validateFile_runtime ?m ?d ?t = genericFailure (catchMessage (ErrorObject ''disk gone''))"
    using C9_faults_are_caught [of ?d ?t ?m "ErrorObject ''disk gone''"] h3 c3 by blast
  then have r3: "validateFile undottedValidator ?t = genericFailure ''disk gone''"
    by (simp only: d k)
  have "validateFile_runtime ?m ?d ?u =
        \<lparr> isValid = False, error = Some InvalidPdfFileFormat, sanitizedFile = None \<rparr>"
    using C9_faults_are_caught [of ?d ?u ?m] h4 c4 by blast
  then have r4: "validateFile undottedValidator ?u =
        \<lparr> isValid = False, error = Some InvalidPdfFileFormat, sanitizedFile = None \<rparr>"
    by (simp only: d)
  have "isValid (validateFile_runtime ?m ?d (?i\<lparr>file_content := Unreadable\<rparr>)) =
        isValid (validateFile_runtime ?m ?d ?i)"
    using C9_faults_are_caught [of ?d ?i ?m _ _ Unreadable] h5 by blast
  then have r5: "isValid (validateFile undottedValidator (sampleFile ''image.png'' ''image/png'' Unreadable)) =
        isValid (validateFile undottedValidator ?i)"
    by (simp only: d u5)
  show ?thesis by (intro conjI) (rule h1 r1 h2 r2 h3 r3 h4 r4 h5 r5)+
qed

end
